theory Spec2Isabelle
  imports Complex_Main "HOL-Library.Finite_Map" "HOL-Library.Sublist"
begin

section \<open>JavaScript values\<close>

text \<open>
  The values that travel through \<^verbatim>\<open>src/pages/Books.js\<close>: what a Firestore document
  field can hold, plus \<^verbatim>\<open>undefined\<close> for a property that is not there. A number is
  a finite value, NaN or one of the infinities; an object is a finite map from property
  names to values.
\<close>

datatype jsnum = NumFinite real | NumNaN | NumPosInfinity | NumNegInfinity

datatype jsval =
    JUndefined
  | JNull
  | JBool bool
  | JNum jsnum
  | JStr string
  | JObj "(string, jsval) fmap"

type_synonym jsobj = "(string, jsval) fmap"

text \<open>ToBoolean, the test behind \<^verbatim>\<open>!x\<close> and \<^verbatim>\<open>if (x)\<close>.\<close>

fun truthy :: "jsval \<Rightarrow> bool" where
  "truthy JUndefined = False"
| "truthy JNull = False"
| "truthy (JBool b) = b"
| "truthy (JNum (NumFinite r)) = (r \<noteq> 0)"
| "truthy (JNum NumNaN) = False"
| "truthy (JNum NumPosInfinity) = True"
| "truthy (JNum NumNegInfinity) = True"
| "truthy (JStr s) = (s \<noteq> [])"
| "truthy (JObj obj) = True"

text \<open>
  ToString, as a template literal applies it to an interpolated value; \<open>None\<close> is the
  TypeError it can throw. The decimal text of a finite number is the runtime's
  \<^verbatim>\<open>Number.prototype.toString\<close>, passed in as \<open>num_text\<close>. An object is converted by
  calling its \<^verbatim>\<open>toString\<close>, then its \<^verbatim>\<open>valueOf\<close>. With no field of its own named
  \<^verbatim>\<open>toString\<close> that is \<^verbatim>\<open>Object.prototype.toString\<close>, which answers
  \<^verbatim>\<open>[object Object]\<close>. A field of its own named \<^verbatim>\<open>toString\<close> hides that method, and
  no value of this model is a function: nothing callable returns a primitive (the
  inherited \<^verbatim>\<open>valueOf\<close> returns the object itself), so the conversion throws.
\<close>

fun to_string :: "(real \<Rightarrow> string) \<Rightarrow> jsval \<Rightarrow> string option" where
  "to_string num_text JUndefined = Some ''undefined''"
| "to_string num_text JNull = Some ''null''"
| "to_string num_text (JBool b) = Some (if b then ''true'' else ''false'')"
| "to_string num_text (JNum (NumFinite r)) = Some (num_text r)"
| "to_string num_text (JNum NumNaN) = Some ''NaN''"
| "to_string num_text (JNum NumPosInfinity) = Some ''Infinity''"
| "to_string num_text (JNum NumNegInfinity) = Some ''-Infinity''"
| "to_string num_text (JStr s) = Some s"
| "to_string num_text (JObj obj) =
     (if ''toString'' |\<in>| fmdom obj then None else Some ''[object Object]'')"

text \<open>Property read \<^verbatim>\<open>obj.k\<close>: a missing property reads as \<^verbatim>\<open>undefined\<close>.\<close>

definition get_prop :: "jsobj \<Rightarrow> string \<Rightarrow> jsval" where
  "get_prop obj k = (case fmlookup obj k of None \<Rightarrow> JUndefined | Some v \<Rightarrow> v)"

section \<open>The runtime's Date: time values and \<^verbatim>\<open>toISOString\<close>\<close>

text \<open>
  \<^verbatim>\<open>new Date().toISOString()\<close> is the one library computation whose result the purchase
  record stores. It is modelled after ECMA-262 (Date objects: Day, TimeWithinDay,
  DaysInYear, DayFromYear, YearFromTime, MonthFromTime, DateFromTime, the time-of-day
  components, and the Date Time String Format). A time value is an integral number of
  milliseconds since 1970-01-01T00:00:00Z, at most 8.64e15 in magnitude.
\<close>

definition msPerDay :: int where
  "msPerDay = 86400000"

definition valid_time :: "int \<Rightarrow> bool" where
  "valid_time t = (- 8640000000000000 \<le> t \<and> t \<le> 8640000000000000)"

definition Day :: "int \<Rightarrow> int" where
  "Day t = t div msPerDay"

definition TimeWithinDay :: "int \<Rightarrow> int" where
  "TimeWithinDay t = t mod msPerDay"

definition DaysInYear :: "int \<Rightarrow> int" where
  "DaysInYear y =
     (if y mod 4 \<noteq> 0 then 365
      else if y mod 100 \<noteq> 0 then 366
      else if y mod 400 \<noteq> 0 then 365
      else 366)"

definition DayFromYear :: "int \<Rightarrow> int" where
  "DayFromYear y =
     365 * (y - 1970) + (y - 1969) div 4 - (y - 1901) div 100 + (y - 1601) div 400"

definition TimeFromYear :: "int \<Rightarrow> int" where
  "TimeFromYear y = msPerDay * DayFromYear y"

text \<open>
  ECMA-262 defines YearFromTime(t) as the largest year y with TimeFromYear(y) \<le> t. The
  computation below starts from the mean year length of the Gregorian cycle (146097 days
  in 400 years) and corrects by at most one year; \<open>YearFromTime_largest\<close> proves that
  it is that largest year.
\<close>

definition YearFromTime :: "int \<Rightarrow> int" where
  "YearFromTime t =
     (let d = Day t; y = 1970 + (400 * d) div 146097
      in if d < DayFromYear y then y - 1
         else if DayFromYear (y + 1) \<le> d then y + 1
         else y)"

definition InLeapYear :: "int \<Rightarrow> int" where
  "InLeapYear t = (if DaysInYear (YearFromTime t) = 366 then 1 else 0)"

definition DayWithinYear :: "int \<Rightarrow> int" where
  "DayWithinYear t = Day t - DayFromYear (YearFromTime t)"

definition MonthFromTime :: "int \<Rightarrow> int" where
  "MonthFromTime t =
     (let d = DayWithinYear t; l = InLeapYear t
      in if d < 31 then 0
         else if d < 59 + l then 1
         else if d < 90 + l then 2
         else if d < 120 + l then 3
         else if d < 151 + l then 4
         else if d < 181 + l then 5
         else if d < 212 + l then 6
         else if d < 243 + l then 7
         else if d < 273 + l then 8
         else if d < 304 + l then 9
         else if d < 334 + l then 10
         else 11)"

text \<open>The day number within the year at which month \<open>m\<close> (0 to 11) begins.\<close>

definition month_start :: "int \<Rightarrow> int \<Rightarrow> int" where
  "month_start l m =
     (if m = 0 then 0
      else if m = 1 then 31
      else if m = 2 then 59 + l
      else if m = 3 then 90 + l
      else if m = 4 then 120 + l
      else if m = 5 then 151 + l
      else if m = 6 then 181 + l
      else if m = 7 then 212 + l
      else if m = 8 then 243 + l
      else if m = 9 then 273 + l
      else if m = 10 then 304 + l
      else 334 + l)"

definition DateFromTime :: "int \<Rightarrow> int" where
  "DateFromTime t = DayWithinYear t + 1 - month_start (InLeapYear t) (MonthFromTime t)"

definition HourFromTime :: "int \<Rightarrow> int" where
  "HourFromTime t = (t div 3600000) mod 24"

definition MinFromTime :: "int \<Rightarrow> int" where
  "MinFromTime t = (t div 60000) mod 60"

definition SecFromTime :: "int \<Rightarrow> int" where
  "SecFromTime t = (t div 1000) mod 60"

definition msFromTime :: "int \<Rightarrow> int" where
  "msFromTime t = t mod 1000"

text \<open>Decimal digits and zero-padded fields.\<close>

definition digit_char :: "nat \<Rightarrow> char" where
  "digit_char d = ''0123456789'' ! (d mod 10)"

definition pad2 :: "nat \<Rightarrow> string" where
  "pad2 n = [digit_char (n div 10), digit_char n]"

definition pad3 :: "nat \<Rightarrow> string" where
  "pad3 n = [digit_char (n div 100), digit_char (n div 10), digit_char n]"

definition pad4 :: "nat \<Rightarrow> string" where
  "pad4 n = [digit_char (n div 1000), digit_char (n div 100), digit_char (n div 10),
             digit_char n]"

definition pad6 :: "nat \<Rightarrow> string" where
  "pad6 n = [digit_char (n div 100000), digit_char (n div 10000), digit_char (n div 1000),
             digit_char (n div 100), digit_char (n div 10), digit_char n]"

text \<open>
  The year of the Date Time String Format: four digits for the years 0 to 9999, otherwise
  the expanded form, a sign and six digits.
\<close>

definition year_text :: "int \<Rightarrow> string" where
  "year_text y =
     (if 0 \<le> y \<and> y \<le> 9999 then pad4 (nat y)
      else if y < 0 then CHR ''-'' # pad6 (nat (- y))
      else CHR ''+'' # pad6 (nat y))"

text \<open>
  \<^verbatim>\<open>Date.prototype.toISOString\<close>: a RangeError (here \<open>None\<close>) when the time value is
  not a valid one, otherwise \<^verbatim>\<open>YYYY-MM-DDTHH:mm:ss.sssZ\<close> in UTC.
\<close>

definition toISOString :: "int \<Rightarrow> string option" where
  "toISOString t =
     (if \<not> valid_time t then None
      else Some (year_text (YearFromTime t) @ ''-'' @ pad2 (nat (MonthFromTime t + 1))
                 @ ''-'' @ pad2 (nat (DateFromTime t))
                 @ ''T'' @ pad2 (nat (HourFromTime t))
                 @ '':'' @ pad2 (nat (MinFromTime t))
                 @ '':'' @ pad2 (nat (SecFromTime t))
                 @ ''.'' @ pad3 (nat (msFromTime t)) @ ''Z''))"

text \<open>
  Reading a timestamp back: the ISO-8601 profile of ECMA-262's Date Time String Format
  with every field present and the UTC designator, as \<^verbatim>\<open>Date.parse\<close> reads it. The
  result is the time value, \<open>None\<close> when the text is not such a timestamp.
\<close>

definition digit_val :: "char \<Rightarrow> nat option" where
  "digit_val c =
     (let code = (of_char c :: nat)
      in if 48 \<le> code \<and> code \<le> 57 then Some (code - 48) else None)"

fun digits_val :: "nat \<Rightarrow> string \<Rightarrow> nat option" where
  "digits_val acc [] = Some acc"
| "digits_val acc (c # cs) =
     (case digit_val c of None \<Rightarrow> None | Some d \<Rightarrow> digits_val (10 * acc + d) cs)"

definition DaysInMonth :: "int \<Rightarrow> int \<Rightarrow> int" where
  "DaysInMonth y m =
     (if m = 1 then (if DaysInYear y = 366 then 29 else 28)
      else if m = 3 \<or> m = 5 \<or> m = 8 \<or> m = 10 then 30
      else 31)"

text \<open>MakeDay for a month 0 to 11 and a day of the month, and MakeTime, MakeDate.\<close>

definition MakeDay :: "int \<Rightarrow> int \<Rightarrow> int \<Rightarrow> int" where
  "MakeDay y m dt =
     DayFromYear y + month_start (if DaysInYear y = 366 then 1 else 0) m + dt - 1"

definition MakeTime :: "int \<Rightarrow> int \<Rightarrow> int \<Rightarrow> int \<Rightarrow> int" where
  "MakeTime h m s ms = h * 3600000 + m * 60000 + s * 1000 + ms"

definition MakeDate :: "int \<Rightarrow> int \<Rightarrow> int" where
  "MakeDate day time = day * msPerDay + time"

text \<open>The part after the year: \<^verbatim>\<open>-MM-DDTHH:mm:ss.sssZ\<close>, twenty characters.\<close>

fun parse_after_year :: "int \<Rightarrow> string \<Rightarrow> int option" where
  "parse_after_year y [c0, m1, m2, c1, d1, d2, c2, h1, h2, c3, n1, n2, c4, s1, s2, c5,
                       f1, f2, f3, c6] =
     (if c0 = CHR ''-'' \<and> c1 = CHR ''-'' \<and> c2 = CHR ''T'' \<and> c3 = CHR '':''
         \<and> c4 = CHR '':'' \<and> c5 = CHR ''.'' \<and> c6 = CHR ''Z''
      then
        (case (digits_val 0 [m1, m2], digits_val 0 [d1, d2], digits_val 0 [h1, h2],
               digits_val 0 [n1, n2], digits_val 0 [s1, s2], digits_val 0 [f1, f2, f3]) of
           (Some mo, Some dt, Some h, Some mi, Some s, Some ms) \<Rightarrow>
             (if 1 \<le> mo \<and> mo \<le> 12 \<and> 1 \<le> dt \<and> int dt \<le> DaysInMonth y (int mo - 1)
                 \<and> h \<le> 23 \<and> mi \<le> 59 \<and> s \<le> 59
              then
                (let t = MakeDate (MakeDay y (int mo - 1) (int dt))
                           (MakeTime (int h) (int mi) (int s) (int ms))
                 in if valid_time t then Some t else None)
              else None)
         | _ \<Rightarrow> None)
      else None)"
| "parse_after_year y cs = None"

definition parse_iso8601 :: "string \<Rightarrow> int option" where
  "parse_iso8601 s =
     (case s of
        [] \<Rightarrow> None
      | c # cs \<Rightarrow>
          if c = CHR ''+'' then
            (case digits_val 0 (take 6 cs) of
               None \<Rightarrow> None
             | Some y \<Rightarrow> if length cs < 6 then None else parse_after_year (int y) (drop 6 cs))
          else if c = CHR ''-'' then
            (case digits_val 0 (take 6 cs) of
               None \<Rightarrow> None
             | Some y \<Rightarrow>
                 if length cs < 6 \<or> y = 0 then None
                 else parse_after_year (- int y) (drop 6 cs))
          else
            (case digits_val 0 (take 4 s) of
               None \<Rightarrow> None
             | Some y \<Rightarrow> if length s < 4 then None else parse_after_year (int y) (drop 4 s)))"

section \<open>The component \<^verbatim>\<open>Books\<close>\<close>

subsection \<open>Module constants\<close>

text \<open>
  The three globals the hosting page may define. \<open>None\<close> is an undefined global;
  \<open>global_firebase_config\<close> holds the object that \<^verbatim>\<open>JSON.parse\<close> returns for it.
\<close>

record globals =
  global_app_id :: "string option"
  global_firebase_config :: "jsobj option"
  global_initial_auth_token :: "string option"

definition appId :: "globals \<Rightarrow> string" where
  "appId g = (case global_app_id g of None \<Rightarrow> ''default-app-id'' | Some a \<Rightarrow> a)"

definition firebaseConfig :: "globals \<Rightarrow> jsobj" where
  "firebaseConfig g = (case global_firebase_config g of None \<Rightarrow> fmempty | Some c \<Rightarrow> c)"

definition initialAuthToken :: "globals \<Rightarrow> string option" where
  "initialAuthToken g = global_initial_auth_token g"

definition initialBooks :: "jsobj list" where
  "initialBooks =
     [fmap_of_list
        [(''id'', JStr ''mern_stack_guide''),
         (''title'', JStr ''MERN STACK''),
         (''description'', JStr ''A complete MERN guide...''),
         (''price'', JNum (NumFinite 999))]]"

subsection \<open>State and surroundings\<close>

text \<open>
  The Firebase handles are opaque objects; each remembers what it was made from.
\<close>

datatype firebase_app = FirebaseApp jsobj
datatype firestore = Firestore firebase_app
datatype auth_instance = AuthInstance firebase_app

datatype sign_in = SignInWithCustomToken auth_instance string | SignInAnonymously auth_instance

record modal_state =
  visible :: bool
  message :: string
  isSuccess :: bool

text \<open>
  The only function ever handed to \<^verbatim>\<open>setTimeout\<close> is the one in
  \<^verbatim>\<open>handlePurchase\<close> that hides the modal and navigates to the registration page.
\<close>

datatype timeout_callback = HideModalThenNavigate

text \<open>
  The first seven fields are the component's \<^verbatim>\<open>useState\<close> slots, with the source's
  names. The others record what the component does to its surroundings: the documents in
  Firestore (collection path and document id to data), every \<^verbatim>\<open>setDoc\<close> call, the
  pending timeouts with the time they are due, the milliseconds elapsed since mount, the
  \<^verbatim>\<open>navigate\<close> calls, the \<^verbatim>\<open>console.error\<close> calls, the sign-in calls and the
  number of identity listeners registered.
\<close>

record world =
  books :: "jsobj list"
  auth :: "auth_instance option"
  db :: "firestore option"
  userId :: "string option"
  isAuthReady :: bool
  loading :: bool
  modal :: modal_state
  firestore_docs :: "(string \<times> string, jsobj) fmap"
  setDoc_calls :: "((string \<times> string) \<times> jsobj) list"
  timeouts :: "(nat \<times> timeout_callback) list"
  elapsed_ms :: nat
  navigate_calls :: "string list"
  console_errors :: "string list"
  sign_in_calls :: "sign_in list"
  auth_listeners :: nat

text \<open>The state at mount, over a Firestore that holds the documents \<open>docs\<close>.\<close>

definition initial_world :: "(string \<times> string, jsobj) fmap \<Rightarrow> world" where
  "initial_world docs =
     \<lparr> books = initialBooks, auth = None, db = None, userId = None,
       isAuthReady = False, loading = True,
       modal = \<lparr> visible = False, message = [], isSuccess = False \<rparr>,
       firestore_docs = docs, setDoc_calls = [], timeouts = [], elapsed_ms = 0,
       navigate_calls = [], console_errors = [], sign_in_calls = [], auth_listeners = 0 \<rparr>"

subsection \<open>Effect 1: Firebase initialisation and authentication\<close>

definition attemptSignIn :: "globals \<Rightarrow> auth_instance \<Rightarrow> sign_in" where
  "attemptSignIn g authInstance =
     (case initialAuthToken g of
        None \<Rightarrow> SignInAnonymously authInstance
      | Some token \<Rightarrow>
          if token \<noteq> [] then SignInWithCustomToken authInstance token
          else SignInAnonymously authInstance)"

definition init_effect :: "globals \<Rightarrow> world \<Rightarrow> world" where
  "init_effect g w =
     (if fcard (fmdom (firebaseConfig g)) = 0 then
        w\<lparr> console_errors :=
              console_errors w @ [''Firebase config is missing. Data persistence disabled.''],
           isAuthReady := True,
           loading := False \<rparr>
      else
        (let app = FirebaseApp (firebaseConfig g);
             firestore = Firestore app;
             authInstance = AuthInstance app
         in w\<lparr> db := Some firestore,
               auth := Some authInstance,
               auth_listeners := Suc (auth_listeners w),
               sign_in_calls := sign_in_calls w @ [attemptSignIn g authInstance] \<rparr>))"

text \<open>The listener's callback; \<open>user\<close> is the signed-in user's uid, or \<open>None\<close> for null.\<close>

definition onAuthStateChanged_callback :: "string option \<Rightarrow> world \<Rightarrow> world" where
  "onAuthStateChanged_callback user w =
     (case user of
        Some uid \<Rightarrow> w\<lparr> userId := Some uid, isAuthReady := True, loading := False \<rparr>
      | None \<Rightarrow> w\<lparr> userId := None, isAuthReady := True, loading := False \<rparr>)"

definition attemptSignIn_catch :: "string \<Rightarrow> world \<Rightarrow> world" where
  "attemptSignIn_catch err w =
     w\<lparr> console_errors := console_errors w @ [''Firebase Auth Sign-In Error:''] \<rparr>"

subsection \<open>Effect 2: the catalogue subscription\<close>

record snapshot_doc =
  doc_id :: string
  doc_data :: jsobj

text \<open>The effect subscribes only once there is a storage handle and auth has settled.\<close>

definition subscribed :: "world \<Rightarrow> bool" where
  "subscribed w = (\<not> (db w = None \<or> \<not> isAuthReady w))"

text \<open>
  \<^verbatim>\<open>{ id: doc.id, ...doc.data() }\<close>: the spread comes second, so a field of the data
  named \<^verbatim>\<open>id\<close> replaces the document id.
\<close>

definition book_of_doc :: "snapshot_doc \<Rightarrow> jsobj" where
  "book_of_doc d = fmupd ''id'' (JStr (doc_id d)) fmempty ++\<^sub>f doc_data d"

definition onSnapshot_next :: "snapshot_doc list \<Rightarrow> world \<Rightarrow> world" where
  "onSnapshot_next docs w = (let fetchedBooks = map book_of_doc docs in w\<lparr> books := fetchedBooks \<rparr>)"

definition onSnapshot_error :: "string \<Rightarrow> world \<Rightarrow> world" where
  "onSnapshot_error err w =
     w\<lparr> console_errors := console_errors w @ [''Error fetching books:''],
        books := initialBooks \<rparr>"

text \<open>The \<^verbatim>\<open>id\<close> of every catalogue entry, as the view reads it for \<^verbatim>\<open>key={book.id}\<close>.\<close>

definition catalog_ids :: "jsobj list \<Rightarrow> jsval list" where
  "catalog_ids bs = map (\<lambda>book. get_prop book ''id'') bs"

subsection \<open>The purchase handler\<close>

text \<open>
  What one call of \<^verbatim>\<open>handlePurchase\<close> takes from outside the component: the clock
  reading behind \<^verbatim>\<open>new Date()\<close>, the identifier that \<^verbatim>\<open>doc(collection(...))\<close>
  generates, how the promise of \<^verbatim>\<open>setDoc\<close> settles (a rejection carries the error's
  message), and the runtime's number-to-text conversion.
\<close>

datatype write_result = Fulfilled | Rejected string

record runtime =
  Date_now :: int
  autoId :: string
  setDoc_result :: write_result
  Number_toString :: "real \<Rightarrow> string"

definition purchase_catch :: "string \<Rightarrow> world \<Rightarrow> world" where
  "purchase_catch error_message w =
     w\<lparr> console_errors := console_errors w @ [''Error processing purchase:''],
        modal := \<lparr> visible = True, message = ''Purchase failed: '' @ error_message,
                   isSuccess = False \<rparr> \<rparr>"

text \<open>
  The block under \<^verbatim>\<open>if (!userId)\<close>: the login notice, and the timeout that will hide
  it and navigate.
\<close>

definition login_redirect :: "world \<Rightarrow> world" where
  "login_redirect w =
     w\<lparr> modal :=
           \<lparr> visible = True,
             message =
               ''You must be logged in to make a purchase. Redirecting you to register...'',
             isSuccess = False \<rparr>,
        timeouts := timeouts w @ [(elapsed_ms w + 1500, HideModalThenNavigate)] \<rparr>"

text \<open>
  The template literal \<^verbatim>\<open>artifacts/${appId}/users/${userId}/purchases\<close> and the object
  literal handed to \<^verbatim>\<open>setDoc\<close>.
\<close>

definition purchaseDocPath :: "globals \<Rightarrow> string \<Rightarrow> string" where
  "purchaseDocPath g uid = ''artifacts/'' @ appId g @ ''/users/'' @ uid @ ''/purchases''"

definition purchase_data :: "string \<Rightarrow> jsval \<Rightarrow> jsval \<Rightarrow> jsval \<Rightarrow> string \<Rightarrow> jsobj" where
  "purchase_data uid ebookId bookTitle price purchaseDate =
     fmap_of_list
       [(''ebookId'', ebookId),
        (''bookTitle'', bookTitle),
        (''price'', price),
        (''purchaseDate'', JStr purchaseDate),
        (''userId'', JStr uid)]"

text \<open>
  The \<^verbatim>\<open>try\<close> block, entered with the uid in hand. The object literal is evaluated
  before \<^verbatim>\<open>setDoc\<close> is called, so a RangeError of \<^verbatim>\<open>toISOString\<close> reaches the
  \<^verbatim>\<open>catch\<close> with no call made. A fulfilled \<^verbatim>\<open>setDoc\<close> has put the data at the
  reference; a rejected one has stored nothing. The success message is a template literal
  evaluated after the \<^verbatim>\<open>await\<close>, still inside the \<^verbatim>\<open>try\<close>: if converting
  \<open>bookTitle\<close> to text throws, the \<^verbatim>\<open>catch\<close> runs with the document already written.
\<close>

definition purchase_try ::
  "globals \<Rightarrow> runtime \<Rightarrow> string \<Rightarrow> jsval \<Rightarrow> jsval \<Rightarrow> jsval \<Rightarrow> world \<Rightarrow> world" where
  "purchase_try g rt uid ebookId bookTitle price w =
     (let newPurchaseRef = (purchaseDocPath g uid, autoId rt)
      in case toISOString (Date_now rt) of
           None \<Rightarrow> purchase_catch ''Invalid time value'' w
         | Some purchaseDate \<Rightarrow>
             (let data = purchase_data uid ebookId bookTitle price purchaseDate
              in case setDoc_result rt of
                   Fulfilled \<Rightarrow>
                     (let written =
                            w\<lparr> firestore_docs := fmupd newPurchaseRef data (firestore_docs w),
                               setDoc_calls := setDoc_calls w @ [(newPurchaseRef, data)] \<rparr>
                      in case to_string (Number_toString rt) bookTitle of
                           None \<Rightarrow>
                             purchase_catch ''Cannot convert object to primitive value'' written
                         | Some title_text \<Rightarrow>
                             written\<lparr> modal :=
                                        \<lparr> visible = True,
                                          message =
                                            ''Successfully purchased '' @ [CHR 0x22] @ title_text
                                            @ [CHR 0x22] @ ''! Check your library.'',
                                          isSuccess = True \<rparr> \<rparr>)
                 | Rejected error_message \<Rightarrow>
                     purchase_catch error_message
                       (w\<lparr> setDoc_calls := setDoc_calls w @ [(newPurchaseRef, data)] \<rparr>)))"

text \<open>
  \<^verbatim>\<open>!userId\<close> holds for null and for the empty string alike; \<^verbatim>\<open>!ebookId\<close> for
  every falsy value; \<^verbatim>\<open>!db\<close> for null, the only falsy value \<open>db\<close> takes.
\<close>

definition handlePurchase ::
  "globals \<Rightarrow> runtime \<Rightarrow> jsval \<Rightarrow> jsval \<Rightarrow> jsval \<Rightarrow> world \<Rightarrow> world" where
  "handlePurchase g rt ebookId bookTitle price w =
     (case userId w of
        None \<Rightarrow> login_redirect w
      | Some uid \<Rightarrow>
          if uid = [] then login_redirect w
          else if \<not> truthy ebookId then
            w\<lparr> modal :=
                  \<lparr> visible = True, message = ''Ebook ID is missing.'', isSuccess = False \<rparr> \<rparr>
          else if db w = None then
            w\<lparr> modal :=
                  \<lparr> visible = True,
                    message = ''Database connection failed. Cannot process purchase.'',
                    isSuccess = False \<rparr> \<rparr>
          else purchase_try g rt uid ebookId bookTitle price w)"

subsection \<open>The notification modal and the timer\<close>

text \<open>Both buttons of \<^verbatim>\<open>Modal\<close> carry the same handler.\<close>

definition Modal_onClick :: "world \<Rightarrow> world" where
  "Modal_onClick w = w\<lparr> modal := \<lparr> visible = False, message = [], isSuccess = False \<rparr> \<rparr>"

text \<open>
  The function given to \<^verbatim>\<open>setTimeout\<close>:
  \<^verbatim>\<open>setModal(prev => ({ ...prev, visible: false })); navigate('/register')\<close>.
\<close>

fun run_timeout :: "timeout_callback \<Rightarrow> world \<Rightarrow> world" where
  "run_timeout HideModalThenNavigate w =
     w\<lparr> modal := (modal w)\<lparr> visible := False \<rparr>,
        navigate_calls := navigate_calls w @ [''/register''] \<rparr>"

text \<open>
  Letting \<open>ms\<close> milliseconds pass: the timeouts that have come due run in the order they
  were set (all have the same delay, so that is the order in which they are due) and leave
  the list.
\<close>

fun run_due :: "(nat \<times> timeout_callback) list \<Rightarrow> world \<Rightarrow> world" where
  "run_due [] w = w"
| "run_due ((due, callback) # rest) w = run_due rest (run_timeout callback w)"

definition advance :: "nat \<Rightarrow> world \<Rightarrow> world" where
  "advance ms w =
     (let now = elapsed_ms w + ms;
          due = filter (\<lambda>(t, cb). t \<le> now) (timeouts w);
          pending = filter (\<lambda>(t, cb). \<not> t \<le> now) (timeouts w)
      in run_due due (w\<lparr> elapsed_ms := now, timeouts := pending \<rparr>))"

subsection \<open>The view's purchase button\<close>

text \<open>
  \<^verbatim>\<open>onClick={() => handlePurchase(book.id, book.title, book.price)}\<close> on the card of
  \<open>book\<close>.
\<close>

definition BuyNow_onClick :: "globals \<Rightarrow> runtime \<Rightarrow> jsobj \<Rightarrow> world \<Rightarrow> world" where
  "BuyNow_onClick g rt book w =
     handlePurchase g rt (get_prop book ''id'') (get_prop book ''title'') (get_prop book ''price'') w"

subsection \<open>Everything that can happen to the mounted component\<close>

datatype event =
    Mount
  | AuthStateChanged "string option"
  | SignInFailed string
  | Snapshot "snapshot_doc list"
  | SnapshotError string
  | Purchase runtime jsval jsval jsval
  | BuyNow runtime nat
  | CloseModal
  | TimePasses nat

text \<open>
  The identity listener fires only if one was registered, the snapshot callbacks only while
  the subscription exists, the cards are there only once loading is over, and the modal's
  buttons only while it is shown. \<open>Purchase\<close> is a call of the handler with any
  arguments at all; \<open>BuyNow\<close> is the click on the card at an index of the catalogue.
\<close>

fun step :: "globals \<Rightarrow> event \<Rightarrow> world \<Rightarrow> world" where
  "step g Mount w = init_effect g w"
| "step g (AuthStateChanged user) w =
     (if auth_listeners w = 0 then w else onAuthStateChanged_callback user w)"
| "step g (SignInFailed err) w = (if sign_in_calls w = [] then w else attemptSignIn_catch err w)"
| "step g (Snapshot docs) w = (if subscribed w then onSnapshot_next docs w else w)"
| "step g (SnapshotError err) w = (if subscribed w then onSnapshot_error err w else w)"
| "step g (Purchase rt ebookId bookTitle price) w = handlePurchase g rt ebookId bookTitle price w"
| "step g (BuyNow rt i) w =
     (if loading w \<or> length (books w) \<le> i then w else BuyNow_onClick g rt (books w ! i) w)"
| "step g CloseModal w = (if visible (modal w) \<and> \<not> loading w then Modal_onClick w else w)"
| "step g (TimePasses ms) w = advance ms w"

definition run :: "globals \<Rightarrow> event list \<Rightarrow> world \<Rightarrow> world" where
  "run g es w = fold (step g) es w"


fun is_Snapshot :: "event \<Rightarrow> bool" where
  "is_Snapshot (Snapshot docs) = True"
| "is_Snapshot e = False"

subsection \<open>Example inputs\<close>

text \<open>
  The inputs of the specification's worked example: the default catalogue entry
  \<^verbatim>\<open>mern_stack_guide\<close>, a visitor \<^verbatim>\<open>u1\<close>, a configured and an unconfigured page;
  and a title that is an object with a field of its own named \<^verbatim>\<open>toString\<close>.
\<close>

definition unprintable_title :: jsval where
  "unprintable_title = JObj (fmap_of_list [(''toString'', JStr ''MERN STACK'')])"

definition example_number_text :: "real \<Rightarrow> string" where
  "example_number_text r = (if r = 999 then ''999'' else ''0'')"

definition example_globals :: globals where
  "example_globals =
     \<lparr> global_app_id = None,
       global_firebase_config = Some (fmap_of_list [(''projectId'', JStr ''edubooks'')]),
       global_initial_auth_token = None \<rparr>"

definition no_config_globals :: globals where
  "no_config_globals =
     \<lparr> global_app_id = None, global_firebase_config = None, global_initial_auth_token = None \<rparr>"

definition example_runtime :: "write_result \<Rightarrow> runtime" where
  "example_runtime r =
     \<lparr> Date_now = 1700000000000, autoId = ''p1'', setDoc_result = r,
       Number_toString = example_number_text \<rparr>"

definition signed_in_world :: world where
  "signed_in_world =
     run example_globals [Mount, AuthStateChanged (Some ''u1'')] (initial_world fmempty)"

text \<open>
  A snapshot of the books collection whose two documents both carry a field named
  \<^verbatim>\<open>id\<close> (as the default entry does), with the same value.
\<close>

definition clashing_snapshot :: "snapshot_doc list" where
  "clashing_snapshot =
     [\<lparr> doc_id = ''b1'',
        doc_data = fmap_of_list
          [(''id'', JStr ''mern_stack_guide''), (''title'', JStr ''MERN STACK'')] \<rparr>,
      \<lparr> doc_id = ''b2'',
        doc_data = fmap_of_list
          [(''id'', JStr ''mern_stack_guide''), (''title'', JStr ''MERN STACK 2'')] \<rparr>]"

section \<open>Timestamps read back\<close>

subsection \<open>Digits\<close>

lemma digit_val_digit_char: "digit_val (digit_char d) = Some (d mod 10)"
proof -
  have "list_all (\<lambda>n. digit_val (''0123456789'' ! n) = Some n) [0..<10]"
    by code_simp
  moreover have "d mod 10 \<in> set [0..<10]" by simp
  ultimately show ?thesis unfolding digit_char_def list_all_iff by blast
qed

subsection \<open>Years\<close>

text \<open>
  Division with remainder by a positive constant, in the two forms the proofs below use:
  the quotient brackets the dividend, and stepping the dividend by one steps the quotient
  exactly when the remainder wraps.
\<close>

lemma int_div_bounds:
  fixes x n :: int
  assumes "0 < n"
  shows "n * (x div n) \<le> x" "x < n * (x div n) + n"
proof -
  have "x = n * (x div n) + x mod n" by simp
  moreover have "0 \<le> x mod n" "x mod n < n" using assms by simp_all
  ultimately show "n * (x div n) \<le> x" "x < n * (x div n) + n" by linarith+
qed

lemma int_div_step:
  fixes x n :: int
  assumes "0 < n"
  shows "(x + 1) div n = x div n + (if (x + 1) mod n = 0 then 1 else 0)"
proof -
  define q where "q = x div n"
  define r where "r = x mod n"
  have x: "x = n * q + r" by (simp add: q_def r_def)
  have r: "0 \<le> r" "r < n" using assms by (simp_all add: r_def)
  show ?thesis
  proof (cases "r + 1 = n")
    case True
    then have "x + 1 = n * (q + 1) + 0" using x by (simp add: algebra_simps)
    then have "(x + 1) div n = q + 1" "(x + 1) mod n = 0"
      using assms by (metis add.right_neutral nonzero_mult_div_cancel_left less_irrefl, 
          metis add.right_neutral mod_mult_self1_is_0)
    then show ?thesis by (simp add: q_def)
  next
    case False
    then have b: "0 \<le> r + 1" "r + 1 < n" using r by linarith+
    have e: "x + 1 = n * q + (r + 1)" using x by simp
    have "(x + 1) div n = q" using int_div_pos_eq [OF e b] .
    moreover have "(x + 1) mod n = r + 1" using int_mod_pos_eq [OF e b] .
    ultimately show ?thesis using r by (simp add: q_def)
  qed
qed

text \<open>
  The first day of a year lies within two days of the mean-year estimate, so the year
  guessed from the estimate is off by at most one, and \<open>YearFromTime\<close> brackets the day.
\<close>

lemma DayFromYear_estimate:
  "146097 * k - 506 \<le> 400 * DayFromYear (1970 + k)"
  "400 * DayFromYear (1970 + k) \<le> 146097 * k + 589"
proof -
  define a where "a = (k + 1) div 4"
  define b where "b = (k + 69) div 100"
  define c where "c = (k + 369) div 400"
  have a: "4 * a \<le> k + 1" "k + 1 < 4 * a + 4"
    unfolding a_def using int_div_bounds [of 4 "k + 1"] by simp_all
  have b: "100 * b \<le> k + 69" "k + 69 < 100 * b + 100"
    unfolding b_def using int_div_bounds [of 100 "k + 69"] by simp_all
  have c: "400 * c \<le> k + 369" "k + 369 < 400 * c + 400"
    unfolding c_def using int_div_bounds [of 400 "k + 369"] by simp_all
  have d: "400 * DayFromYear (1970 + k) = 146000 * k + 400 * a - 400 * b + 400 * c"
    by (simp add: DayFromYear_def a_def b_def c_def add.commute)
  show "146097 * k - 506 \<le> 400 * DayFromYear (1970 + k)"
    unfolding d using a(2) b(1) c(2) by linarith
  show "400 * DayFromYear (1970 + k) \<le> 146097 * k + 589"
    unfolding d using a(1) b(2) c(1) by linarith
qed

lemma YearFromTime_bounds:
  "DayFromYear (YearFromTime t) \<le> Day t" "Day t < DayFromYear (YearFromTime t + 1)"
proof -
  define d where "d = Day t"
  define k where "k = (400 * d) div 146097"
  have q: "146097 * k \<le> 400 * d" "400 * d < 146097 * k + 146097"
    unfolding k_def using int_div_bounds [of 146097 "400 * d"] by simp_all
  have yt: "YearFromTime t =
     (if d < DayFromYear (1970 + k) then 1970 + k - 1
      else if DayFromYear (1970 + k + 1) \<le> d then 1970 + k + 1 else 1970 + k)"
    by (simp add: YearFromTime_def Let_def d_def k_def)
  have e1: "146097 * (k - 1) = 146097 * k - 146097" by simp
  have e2: "146097 * (k + 2) = 146097 * k + 292194" by simp
  have "400 * DayFromYear (1970 + (k - 1)) \<le> 400 * d"
    using DayFromYear_estimate(2) [of "k - 1"] q(1) e1 by linarith
  then have lo: "DayFromYear (1970 + k - 1) \<le> d" by (simp add: algebra_simps)
  have "400 * d < 400 * DayFromYear (1970 + (k + 2))"
    using DayFromYear_estimate(1) [of "k + 2"] q(2) e2 by linarith
  then have hi: "d < DayFromYear (1970 + k + 1 + 1)" by (simp add: algebra_simps)
  have ymid: "1970 + k - 1 + 1 = 1970 + k" by simp
  show "DayFromYear (YearFromTime t) \<le> Day t"
    unfolding yt d_def [symmetric] using lo by simp
  show "Day t < DayFromYear (YearFromTime t + 1)"
    unfolding yt d_def [symmetric] using hi by (simp add: ymid)
qed

text \<open>A year is as long as the distance between the first days of it and of the next.\<close>

lemma leap_mods:
  fixes y :: int
  shows "(y - 1968) mod 4 = y mod 4" "(y - 1900) mod 100 = y mod 100"
    "(y - 1600) mod 400 = y mod 400"
proof -
  have "(y + 4 * (- 492)) mod 4 = y mod 4" by (rule mod_mult_self2)
  then show "(y - 1968) mod 4 = y mod 4" by simp
  have "(y + 100 * (- 19)) mod 100 = y mod 100" by (rule mod_mult_self2)
  then show "(y - 1900) mod 100 = y mod 100" by simp
  have "(y + 400 * (- 4)) mod 400 = y mod 400" by (rule mod_mult_self2)
  then show "(y - 1600) mod 400 = y mod 400" by simp
qed

lemma leap_divides:
  fixes y :: int
  shows "y mod 100 = 0 \<Longrightarrow> y mod 4 = 0" "y mod 400 = 0 \<Longrightarrow> y mod 100 = 0"
proof -
  assume "y mod 100 = 0"
  then have "100 dvd y" by (simp add: mod_eq_0_iff_dvd)
  then have "4 dvd y" using dvd_trans [of 4 100 y] by simp
  then show "y mod 4 = 0" by (simp add: mod_eq_0_iff_dvd)
next
  assume "y mod 400 = 0"
  then have "400 dvd y" by (simp add: mod_eq_0_iff_dvd)
  then have "100 dvd y" using dvd_trans [of 100 400 y] by simp
  then show "y mod 100 = 0" by (simp add: mod_eq_0_iff_dvd)
qed

lemma DaysInYear_sum:
  "DaysInYear y =
     365 + (if y mod 4 = 0 then 1 else 0) - (if y mod 100 = 0 then 1 else 0)
         + (if y mod 400 = 0 then 1 else 0)"
proof (cases "y mod 4 = 0")
  case no4: False
  then have "y mod 100 \<noteq> 0" using leap_divides(1) [of y] by auto
  moreover from this have "y mod 400 \<noteq> 0" using leap_divides(2) [of y] by auto
  ultimately show ?thesis using no4 by (simp add: DaysInYear_def)
next
  case four: True
  show ?thesis
  proof (cases "y mod 100 = 0")
    case False
    then have "y mod 400 \<noteq> 0" using leap_divides(2) [of y] by auto
    with four False show ?thesis by (simp add: DaysInYear_def)
  next
    case True
    with four show ?thesis by (simp add: DaysInYear_def)
  qed
qed

lemma DayFromYear_Suc: "DayFromYear (y + 1) = DayFromYear y + DaysInYear y"
proof -
  have a: "(y - 1968) div 4 = (y - 1969) div 4 + (if y mod 4 = 0 then 1 else 0)"
    using int_div_step [of 4 "y - 1969"] by (simp add: leap_mods)
  have b: "(y - 1900) div 100 = (y - 1901) div 100 + (if y mod 100 = 0 then 1 else 0)"
    using int_div_step [of 100 "y - 1901"] by (simp add: leap_mods)
  have c: "(y - 1600) div 400 = (y - 1601) div 400 + (if y mod 400 = 0 then 1 else 0)"
    using int_div_step [of 400 "y - 1601"] by (simp add: leap_mods)
  have "DayFromYear (y + 1) =
          365 * (y - 1969) + (y - 1968) div 4 - (y - 1900) div 100 + (y - 1600) div 400"
    by (simp add: DayFromYear_def)
  also have "\<dots> = DayFromYear y + DaysInYear y"
    unfolding a b c DaysInYear_sum DayFromYear_def by (simp only: algebra_simps)
  finally show ?thesis .
qed

lemma DayWithinYear_range:
  "0 \<le> DayWithinYear t" "DayWithinYear t < 365 + InLeapYear t"
proof -
  show "0 \<le> DayWithinYear t"
    using YearFromTime_bounds(1) [of t] by (simp add: DayWithinYear_def)
  have "DaysInYear (YearFromTime t) = 365 + InLeapYear t"
    by (simp add: InLeapYear_def DaysInYear_def)
  then show "DayWithinYear t < 365 + InLeapYear t"
    using YearFromTime_bounds(2) [of t] DayFromYear_Suc [of "YearFromTime t"]
    by (simp add: DayWithinYear_def)
qed

subsection \<open>Months, days, time of day\<close>

lemma MonthFromTime_range: "0 \<le> MonthFromTime t" "MonthFromTime t \<le> 11"
  by (simp_all add: MonthFromTime_def Let_def)

lemma DateFromTime_range:
  "1 \<le> DateFromTime t" "DateFromTime t \<le> DaysInMonth (YearFromTime t) (MonthFromTime t)"
proof -
  define d where "d = DayWithinYear t"
  define l where "l = InLeapYear t"
  have d: "0 \<le> d" "d < 365 + l"
    using DayWithinYear_range [of t] by (simp_all add: d_def l_def)
  have l: "l = (if DaysInYear (YearFromTime t) = 366 then 1 else 0)"
    by (simp add: l_def InLeapYear_def)
  have m: "MonthFromTime t =
      (if d < 31 then 0 else if d < 59 + l then 1 else if d < 90 + l then 2
       else if d < 120 + l then 3 else if d < 151 + l then 4 else if d < 181 + l then 5
       else if d < 212 + l then 6 else if d < 243 + l then 7 else if d < 273 + l then 8
       else if d < 304 + l then 9 else if d < 334 + l then 10 else 11)"
    by (simp add: MonthFromTime_def Let_def d_def l_def)
  have dt: "DateFromTime t = d + 1 - month_start l (MonthFromTime t)"
    by (simp add: DateFromTime_def d_def l_def)
  show "1 \<le> DateFromTime t"
    unfolding dt m using d by (simp add: month_start_def)
  show "DateFromTime t \<le> DaysInMonth (YearFromTime t) (MonthFromTime t)"
  proof (cases "DaysInYear (YearFromTime t) = 366")
    case True
    then have "l = 1" using l by simp
    with d True show ?thesis
      unfolding dt m by (simp add: month_start_def DaysInMonth_def)
  next
    case False
    then have "l = 0" using l by simp
    with d False show ?thesis
      unfolding dt m by (simp add: month_start_def DaysInMonth_def)
  qed
qed

lemma MakeDay_inverse: "MakeDay (YearFromTime t) (MonthFromTime t) (DateFromTime t) = Day t"
  by (simp add: MakeDay_def DateFromTime_def DayWithinYear_def InLeapYear_def)

lemma time_of_day_ranges:
  "0 \<le> HourFromTime t" "HourFromTime t \<le> 23"
  "0 \<le> MinFromTime t" "MinFromTime t \<le> 59"
  "0 \<le> SecFromTime t" "SecFromTime t \<le> 59"
  "0 \<le> msFromTime t" "msFromTime t \<le> 999"
proof -
  have "HourFromTime t < 24" "MinFromTime t < 60" "SecFromTime t < 60" "msFromTime t < 1000"
    by (simp_all add: HourFromTime_def MinFromTime_def SecFromTime_def msFromTime_def)
  then show "HourFromTime t \<le> 23" "MinFromTime t \<le> 59" "SecFromTime t \<le> 59"
    "msFromTime t \<le> 999"
    by simp_all
  show "0 \<le> HourFromTime t" "0 \<le> MinFromTime t" "0 \<le> SecFromTime t" "0 \<le> msFromTime t"
    by (simp_all add: HourFromTime_def MinFromTime_def SecFromTime_def msFromTime_def)
qed

lemma MakeTime_inverse:
  "MakeTime (HourFromTime t) (MinFromTime t) (SecFromTime t) (msFromTime t) = TimeWithinDay t"
proof -
  define a where "a = t div 1000"
  define b where "b = a div 60"
  define c where "c = b div 60"
  define e where "e = c div 24"
  have b': "t div 60000 = b"
    using zdiv_zmult2_eq [of 60 t 1000] by (simp add: a_def b_def)
  have c': "t div 3600000 = c"
    using zdiv_zmult2_eq [of 60 t 60000] by (simp add: b' c_def)
  have e': "t div 86400000 = e"
    using zdiv_zmult2_eq [of 24 t 3600000] by (simp add: c' e_def)
  have 1: "t = 1000 * a + t mod 1000" by (simp add: a_def)
  have 2: "a = 60 * b + a mod 60" by (simp add: b_def)
  have 3: "b = 60 * c + b mod 60" by (simp add: c_def)
  have 4: "c = 24 * e + c mod 24" by (simp add: e_def)
  have 5: "t = 86400000 * e + t mod 86400000" using e' [symmetric] by simp
  have "MakeTime (HourFromTime t) (MinFromTime t) (SecFromTime t) (msFromTime t) =
          (c mod 24) * 3600000 + (b mod 60) * 60000 + (a mod 60) * 1000 + t mod 1000"
    by (simp add: MakeTime_def HourFromTime_def MinFromTime_def SecFromTime_def msFromTime_def
        a_def [symmetric] b' c')
  also have "\<dots> = t mod 86400000"
    using 1 2 3 4 5 by linarith
  finally show ?thesis by (simp add: TimeWithinDay_def msPerDay_def)
qed

lemma MakeDate_inverse: "MakeDate (Day t) (TimeWithinDay t) = t"
  by (simp add: MakeDate_def Day_def TimeWithinDay_def)

text \<open>The years of valid time values, from -271821 to 275760, fit the six digits.\<close>

lemma Day_range:
  assumes "valid_time t"
  shows "- 100000000 \<le> Day t" "Day t \<le> 100000000"
proof -
  have t: "- 8640000000000000 \<le> t" "t \<le> 8640000000000000"
    using assms by (simp_all add: valid_time_def)
  have "86400000 * Day t \<le> t" "t < 86400000 * Day t + 86400000"
    using int_div_bounds [of 86400000 t] by (simp_all add: Day_def msPerDay_def)
  with t show "- 100000000 \<le> Day t" "Day t \<le> 100000000" by linarith+
qed

lemma YearFromTime_range:
  assumes "valid_time t"
  shows "- 271821 \<le> YearFromTime t" "YearFromTime t \<le> 275760"
proof -
  define k where "k = YearFromTime t - 1970"
  have y: "YearFromTime t = 1970 + k" "YearFromTime t + 1 = 1970 + (k + 1)"
    by (simp_all add: k_def)
  have lo: "DayFromYear (1970 + k) \<le> 100000000"
    using YearFromTime_bounds(1) [of t] Day_range(2) [OF assms] unfolding y by linarith
  have "Day t < DayFromYear (1970 + (k + 1))"
    using YearFromTime_bounds(2) [of t] by (simp add: k_def add.commute)
  then have hi: "- 100000000 < DayFromYear (1970 + (k + 1))"
    using Day_range(1) [OF assms] by linarith
  have e: "146097 * (k + 1) = 146097 * k + 146097" by simp
  have "146097 * k \<le> 40000000506"
    using DayFromYear_estimate(1) [of k] lo by linarith
  then have "k \<le> 273790" by linarith
  then show "YearFromTime t \<le> 275760" unfolding y by simp
  have "- 40000000589 < 146097 * (k + 1)"
    using DayFromYear_estimate(2) [of "k + 1"] hi by linarith
  then have "- 273791 \<le> k" unfolding e by linarith
  then show "- 271821 \<le> YearFromTime t" unfolding y by simp
qed

subsection \<open>Parsing what \<^verbatim>\<open>toISOString\<close> prints\<close>

lemma digit_char_not_sign: "digit_char d \<noteq> CHR ''+''" "digit_char d \<noteq> CHR ''-''"
proof -
  have "digit_val (CHR ''+'') = None" "digit_val (CHR ''-'') = None"
    by (simp_all add: digit_val_def)
  then show "digit_char d \<noteq> CHR ''+''" "digit_char d \<noteq> CHR ''-''"
    using digit_val_digit_char [of d] by auto
qed

lemma digits_val_2:
  assumes "n < 100"
  shows "digits_val 0 [digit_char (n div 10), digit_char n] = Some n"
proof -
  have "n div 10 < 10" using assms by simp
  then have "n div 10 mod 10 = n div 10" by simp
  then show ?thesis by (simp add: digit_val_digit_char)
qed

lemma digits_val_3:
  assumes "n < 1000"
  shows "digits_val 0 [digit_char (n div 100), digit_char (n div 10), digit_char n] = Some n"
proof -
  define q1 where "q1 = n div 10"
  have q2: "n div 100 = q1 div 10"
    using div_mult2_eq [of n 10 10] by (simp add: q1_def)
  have "q1 div 10 < 10" using assms by (simp add: q1_def div_mult2_eq [symmetric])
  then have top: "q1 div 10 mod 10 = q1 div 10" by simp
  have "10 * (10 * (q1 div 10) + q1 mod 10) + n mod 10 = n"
    by (simp add: q1_def)
  then show ?thesis
    by (simp add: digit_val_digit_char q2 top q1_def [symmetric])
qed

lemma digits_val_4:
  assumes "n < 10000"
  shows "digits_val 0 [digit_char (n div 1000), digit_char (n div 100), digit_char (n div 10),
                       digit_char n] = Some n"
proof -
  define q1 where "q1 = n div 10"
  define q2 where "q2 = q1 div 10"
  have d2: "n div 100 = q2"
    using div_mult2_eq [of n 10 10] by (simp add: q1_def q2_def)
  have d3: "n div 1000 = q2 div 10"
    using div_mult2_eq [of n 100 10] by (simp add: d2)
  have "q2 div 10 < 10" using assms unfolding d3 [symmetric] by simp
  then have top: "q2 div 10 mod 10 = q2 div 10" by simp
  have "10 * (10 * (10 * (q2 div 10) + q2 mod 10) + q1 mod 10) + n mod 10 = n"
    by (simp add: q1_def q2_def)
  then show ?thesis
    by (simp add: digit_val_digit_char d2 d3 top q1_def [symmetric])
qed

lemma digits_val_6:
  assumes "n < 1000000"
  shows "digits_val 0 [digit_char (n div 100000), digit_char (n div 10000),
                       digit_char (n div 1000), digit_char (n div 100), digit_char (n div 10),
                       digit_char n] = Some n"
proof -
  define q1 where "q1 = n div 10"
  define q2 where "q2 = q1 div 10"
  define q3 where "q3 = q2 div 10"
  define q4 where "q4 = q3 div 10"
  have d2: "n div 100 = q2"
    using div_mult2_eq [of n 10 10] by (simp add: q1_def q2_def)
  have d3: "n div 1000 = q3"
    using div_mult2_eq [of n 100 10] by (simp add: d2 q3_def)
  have d4: "n div 10000 = q4"
    using div_mult2_eq [of n 1000 10] by (simp add: d3 q4_def)
  have d5: "n div 100000 = q4 div 10"
    using div_mult2_eq [of n 10000 10] by (simp add: d4)
  have "q4 div 10 < 10" using assms unfolding d5 [symmetric] by simp
  then have top: "q4 div 10 mod 10 = q4 div 10" by simp
  have "10 * (10 * (10 * (10 * (10 * (q4 div 10) + q4 mod 10) + q3 mod 10) + q2 mod 10)
          + q1 mod 10) + n mod 10 = n"
    by (simp add: q1_def q2_def q3_def q4_def)
  then show ?thesis
    by (simp add: digit_val_digit_char d2 d3 d4 d5 top q1_def [symmetric])
qed

lemma parse_after_year_fields:
  assumes "1 \<le> mo" "mo \<le> 12" "1 \<le> dt" "int dt \<le> DaysInMonth y (int mo - 1)"
    "h \<le> 23" "mi \<le> 59" "s \<le> 59" "ms \<le> 999"
    "valid_time (MakeDate (MakeDay y (int mo - 1) (int dt))
                   (MakeTime (int h) (int mi) (int s) (int ms)))"
  shows "parse_after_year y
           (''-'' @ pad2 mo @ ''-'' @ pad2 dt @ ''T'' @ pad2 h @ '':'' @ pad2 mi @ '':''
            @ pad2 s @ ''.'' @ pad3 ms @ ''Z'')
         = Some (MakeDate (MakeDay y (int mo - 1) (int dt))
                   (MakeTime (int h) (int mi) (int s) (int ms)))"
proof -
  have "dt \<le> 31" using assms(4) by (simp add: DaysInMonth_def split: if_splits)
  then have lt: "mo < 100" "dt < 100" "h < 100" "mi < 100" "s < 100" "ms < 1000"
    using assms by simp_all
  show ?thesis
    using assms
    by (simp add: pad2_def pad3_def digits_val_2 [OF lt(1)] digits_val_2 [OF lt(2)]
        digits_val_2 [OF lt(3)] digits_val_2 [OF lt(4)] digits_val_2 [OF lt(5)]
        digits_val_3 [OF lt(6)] del: digits_val.simps)
qed


lemma parse_iso8601_year_text:
  assumes "- 999999 \<le> y" "y \<le> 999999"
  shows "parse_iso8601 (year_text y @ rest) = parse_after_year y rest"
proof -
  consider "0 \<le> y \<and> y \<le> 9999" | "y < 0" | "9999 < y" by linarith
  then show ?thesis
  proof cases
    case 1
    then have n: "nat y < 10000" by arith
    have yt: "year_text y = pad4 (nat y)" using 1 by (simp add: year_text_def)
    show ?thesis
      unfolding yt using 1 digit_char_not_sign [of "nat y div 1000"]
      by (simp add: parse_iso8601_def pad4_def digits_val_4 [OF n] del: digits_val.simps)
  next
    case 2
    then have n: "nat (- y) < 1000000" "nat (- y) \<noteq> 0" using assms by arith+
    have yt: "year_text y = CHR ''-'' # pad6 (nat (- y))" using 2 by (simp add: year_text_def)
    show ?thesis
      unfolding yt using 2 n(2)
      by (simp add: parse_iso8601_def pad6_def digits_val_6 [OF n(1)] del: digits_val.simps)
  next
    case 3
    then have n: "nat y < 1000000" using assms by arith
    have yt: "year_text y = CHR ''+'' # pad6 (nat y)" using 3 by (simp add: year_text_def)
    show ?thesis
      unfolding yt using 3
      by (simp add: parse_iso8601_def pad6_def digits_val_6 [OF n] del: digits_val.simps)
  qed
qed

text \<open>
  Every valid time value has an ISO text, and the text reads back as that time value.
\<close>

lemma toISOString_roundtrip:
  assumes "valid_time t"
  shows "\<exists>s. toISOString t = Some s \<and> parse_iso8601 s = Some t"
proof -
  define y where "y = YearFromTime t"
  define mo where "mo = nat (MonthFromTime t + 1)"
  define dt where "dt = nat (DateFromTime t)"
  define h where "h = nat (HourFromTime t)"
  define mi where "mi = nat (MinFromTime t)"
  define s where "s = nat (SecFromTime t)"
  define ms where "ms = nat (msFromTime t)"
  define rest where "rest = ''-'' @ pad2 mo @ ''-'' @ pad2 dt @ ''T'' @ pad2 h @ '':'' @ pad2 mi
     @ '':'' @ pad2 s @ ''.'' @ pad3 ms @ ''Z''"
  have iso: "toISOString t = Some (year_text y @ rest)"
    using assms
    by (simp add: toISOString_def y_def rest_def mo_def dt_def h_def mi_def s_def ms_def)
  have ints: "int mo - 1 = MonthFromTime t" "int dt = DateFromTime t" "int h = HourFromTime t"
    "int mi = MinFromTime t" "int s = SecFromTime t" "int ms = msFromTime t"
    using MonthFromTime_range [of t] DateFromTime_range(1) [of t] time_of_day_ranges [of t]
    by (simp_all add: mo_def dt_def h_def mi_def s_def ms_def)
  have inv: "MakeDate (MakeDay y (int mo - 1) (int dt))
                (MakeTime (int h) (int mi) (int s) (int ms)) = t"
    unfolding ints y_def by (simp add: MakeDay_inverse MakeTime_inverse MakeDate_inverse)
  have r: "1 \<le> mo" "mo \<le> 12" "1 \<le> dt" "int dt \<le> DaysInMonth y (int mo - 1)"
    "h \<le> 23" "mi \<le> 59" "s \<le> 59" "ms \<le> 999"
    using MonthFromTime_range [of t] DateFromTime_range [of t] time_of_day_ranges [of t]
    unfolding ints y_def
    by (simp_all add: mo_def dt_def h_def mi_def s_def ms_def)
  have v: "valid_time (MakeDate (MakeDay y (int mo - 1) (int dt))
                (MakeTime (int h) (int mi) (int s) (int ms)))"
    unfolding inv using assms .
  have "parse_after_year y rest = Some t"
    unfolding rest_def using parse_after_year_fields [OF r v] inv by simp
  moreover have "- 999999 \<le> y" "y \<le> 999999"
    using YearFromTime_range [OF assms] by (simp_all add: y_def)
  ultimately have "parse_iso8601 (year_text y @ rest) = Some t"
    by (simp add: parse_iso8601_year_text)
  with iso show ?thesis by simp
qed

text \<open>
  \<open>YearFromTime\<close> is the largest year whose first instant is not after \<open>t\<close>, which is
  how ECMA-262 defines it.
\<close>

lemma DayFromYear_mono: "y \<le> z \<Longrightarrow> DayFromYear y \<le> DayFromYear z"
proof (induction z rule: int_ge_induct)
  case base
  show ?case by simp
next
  case (step i)
  have "0 \<le> DaysInYear i" by (simp add: DaysInYear_def)
  with step.IH show ?case by (simp add: DayFromYear_Suc)
qed

lemma YearFromTime_largest:
  "TimeFromYear (YearFromTime t) \<le> t" "TimeFromYear y \<le> t \<Longrightarrow> y \<le> YearFromTime t"
proof -
  have t: "86400000 * Day t \<le> t" "t < 86400000 * Day t + 86400000"
    using int_div_bounds [of 86400000 t] by (simp_all add: Day_def msPerDay_def)
  show "TimeFromYear (YearFromTime t) \<le> t"
    using YearFromTime_bounds(1) [of t] t(1) by (simp add: TimeFromYear_def msPerDay_def)
  show "y \<le> YearFromTime t" if le: "TimeFromYear y \<le> t"
  proof (rule ccontr)
    assume "\<not> y \<le> YearFromTime t"
    then have "YearFromTime t + 1 \<le> y" by simp
    then have "DayFromYear (YearFromTime t + 1) \<le> DayFromYear y" by (rule DayFromYear_mono)
    then have "Day t + 1 \<le> DayFromYear y" using YearFromTime_bounds(2) [of t] by linarith
    then have "t < 86400000 * DayFromYear y" using t(2) by linarith
    with le show False by (simp add: TimeFromYear_def msPerDay_def)
  qed
qed

section \<open>Timeouts\<close>

text \<open>
  There is one kind of timeout, so running any batch of them hides the modal (if the batch
  is not empty) and navigates once per timeout, and touches nothing else.
\<close>

lemma run_timeout_any:
  "run_timeout cb w =
     w\<lparr> modal := (modal w)\<lparr> visible := False \<rparr>,
        navigate_calls := navigate_calls w @ [''/register''] \<rparr>"
  by (cases cb) simp

lemma run_due_fields:
  "books (run_due ds w) = books w"
  "timeouts (run_due ds w) = timeouts w"
  "setDoc_calls (run_due ds w) = setDoc_calls w"
  "firestore_docs (run_due ds w) = firestore_docs w"
  "userId (run_due ds w) = userId w"
  "elapsed_ms (run_due ds w) = elapsed_ms w"
  "navigate_calls (run_due ds w) = navigate_calls w @ replicate (length ds) ''/register''"
  "modal (run_due ds w) = (if ds = [] then modal w else (modal w)\<lparr> visible := False \<rparr>)"
  by (induction ds w rule: run_due.induct)
     (simp_all add: run_timeout_any replicate_append_same)

lemma advance_fields:
  "books (advance ms w) = books w"
  "setDoc_calls (advance ms w) = setDoc_calls w"
  "firestore_docs (advance ms w) = firestore_docs w"
  "userId (advance ms w) = userId w"
  "elapsed_ms (advance ms w) = elapsed_ms w + ms"
  "timeouts (advance ms w) = filter (\<lambda>(t, cb). \<not> t \<le> elapsed_ms w + ms) (timeouts w)"
  "navigate_calls (advance ms w) =
     navigate_calls w
     @ replicate (length (filter (\<lambda>(t, cb). t \<le> elapsed_ms w + ms) (timeouts w))) ''/register''"
  "modal (advance ms w) =
     (if filter (\<lambda>(t, cb). t \<le> elapsed_ms w + ms) (timeouts w) = [] then modal w
      else (modal w)\<lparr> visible := False \<rparr>)"
  by (simp_all add: advance_def Let_def run_due_fields)

section \<open>What the handlers leave alone\<close>

lemma handlePurchase_books: "books (handlePurchase g rt e t p w) = books w"
  by (simp add: handlePurchase_def login_redirect_def purchase_try_def purchase_catch_def Let_def
      split: option.splits write_result.splits)

lemma step_books:
  "\<not> is_Snapshot e \<Longrightarrow> books w = initialBooks \<Longrightarrow> books (step g e w) = initialBooks"
  by (cases e)
     (simp_all add: init_effect_def Let_def onAuthStateChanged_callback_def attemptSignIn_catch_def
        onSnapshot_error_def handlePurchase_books BuyNow_onClick_def Modal_onClick_def
        advance_fields split: option.splits)

lemma run_books:
  "\<forall>e \<in> set es. \<not> is_Snapshot e \<Longrightarrow> books w = initialBooks
   \<Longrightarrow> books (run g es w) = initialBooks"
  unfolding run_def
  by (induction es arbitrary: w) (simp_all add: step_books)

lemma callbacks_write_nothing:
  "setDoc_calls (init_effect g w) = setDoc_calls w"
  "firestore_docs (init_effect g w) = firestore_docs w"
  "setDoc_calls (onAuthStateChanged_callback user w) = setDoc_calls w"
  "firestore_docs (onAuthStateChanged_callback user w) = firestore_docs w"
  "setDoc_calls (attemptSignIn_catch err w) = setDoc_calls w"
  "firestore_docs (attemptSignIn_catch err w) = firestore_docs w"
  "setDoc_calls (onSnapshot_next docs w) = setDoc_calls w"
  "firestore_docs (onSnapshot_next docs w) = firestore_docs w"
  "setDoc_calls (onSnapshot_error err w) = setDoc_calls w"
  "firestore_docs (onSnapshot_error err w) = firestore_docs w"
  "setDoc_calls (Modal_onClick w) = setDoc_calls w"
  "firestore_docs (Modal_onClick w) = firestore_docs w"
  by (simp_all add: init_effect_def Let_def onAuthStateChanged_callback_def attemptSignIn_catch_def
      onSnapshot_next_def onSnapshot_error_def Modal_onClick_def split: option.splits)

text \<open>
  The handler writes only past its identity check, and then one document that carries the
  identity.
\<close>

lemma handlePurchase_writes:
  "setDoc_calls (handlePurchase g rt ebookId bookTitle price w) \<noteq> setDoc_calls w
     \<or> firestore_docs (handlePurchase g rt ebookId bookTitle price w) \<noteq> firestore_docs w
   \<Longrightarrow> \<exists>uid data. userId w = Some uid \<and> uid \<noteq> []
        \<and> setDoc_calls (handlePurchase g rt ebookId bookTitle price w) =
            setDoc_calls w @ [((purchaseDocPath g uid, autoId rt), data)]
        \<and> fmlookup data ''userId'' = Some (JStr uid)
        \<and> (firestore_docs (handlePurchase g rt ebookId bookTitle price w) = firestore_docs w
            \<or> firestore_docs (handlePurchase g rt ebookId bookTitle price w) =
                fmupd (purchaseDocPath g uid, autoId rt) data (firestore_docs w))"
  by (auto simp: handlePurchase_def login_redirect_def purchase_try_def purchase_catch_def Let_def
      purchase_data_def split: option.splits if_splits write_result.splits)

section \<open>Where the identity comes from\<close>

text \<open>
  Only the identity listener writes \<open>userId\<close>: whatever uid the component holds was
  delivered by Firebase in an identity change. Firebase uids are never empty, which is why
  the theorems on purchases below take the identity to be a non-empty uid, the only kind
  that passes \<^verbatim>\<open>!userId\<close>.
\<close>

lemma handlePurchase_userId: "userId (handlePurchase g rt e t p w) = userId w"
  by (simp add: handlePurchase_def login_redirect_def purchase_try_def purchase_catch_def Let_def
      split: option.splits write_result.splits)

lemma step_userId:
  "userId (step g e w) = userId w
   \<or> (\<exists>user. e = AuthStateChanged user \<and> userId (step g e w) = user)"
  by (cases e)
     (simp_all add: init_effect_def Let_def onAuthStateChanged_callback_def attemptSignIn_catch_def
        onSnapshot_next_def onSnapshot_error_def handlePurchase_userId BuyNow_onClick_def
        Modal_onClick_def advance_fields split: option.splits)

lemma identity_comes_from_listener:
  "userId (run g es (initial_world docs)) = Some uid \<Longrightarrow> AuthStateChanged (Some uid) \<in> set es"
proof (induction es rule: rev_induct)
  case Nil
  then show ?case by (simp add: run_def initial_world_def)
next
  case (snoc e es)
  have r: "run g (es @ [e]) (initial_world docs) = step g e (run g es (initial_world docs))"
    by (simp add: run_def)
  from step_userId [of g e "run g es (initial_world docs)"] snoc show ?case
    unfolding r by auto
qed

section \<open>The example visitor\<close>

text \<open>Mounted with a configuration, then signed in as \<^verbatim>\<open>u1\<close>.\<close>

lemma signed_in_world_fields:
  "userId signed_in_world = Some ''u1''"
  "db signed_in_world \<noteq> None"
  "firestore_docs signed_in_world = fmempty"
  "setDoc_calls signed_in_world = []"
  "books signed_in_world = initialBooks"
  by (simp_all add: signed_in_world_def run_def example_globals_def init_effect_def firebaseConfig_def
      initial_world_def onAuthStateChanged_callback_def Let_def)

lemma signed_in_db: "\<exists>store. db signed_in_world = Some store"
  by (simp add: signed_in_world_def run_def example_globals_def init_effect_def firebaseConfig_def
      initial_world_def onAuthStateChanged_callback_def Let_def)

text \<open>
  A purchase by that visitor of a book whose title cannot be converted to text: the write
  is made and fulfilled, then the template literal of the success message throws, and the
  notification is the failure notice of the \<^verbatim>\<open>catch\<close>.
\<close>

lemma purchase_with_unprintable_title:
  "fmdom (firestore_docs (handlePurchase example_globals (example_runtime Fulfilled)
       (JStr ''mern_stack_guide'') unprintable_title (JNum (NumFinite 999)) signed_in_world))
     = {|(''artifacts/default-app-id/users/u1/purchases'', ''p1'')|}
   \<and> modal (handlePurchase example_globals (example_runtime Fulfilled)
       (JStr ''mern_stack_guide'') unprintable_title (JNum (NumFinite 999)) signed_in_world)
     = \<lparr> visible = True,
         message = ''Purchase failed: Cannot convert object to primitive value'',
         isSuccess = False \<rparr>"
proof -
  obtain store where d: "db signed_in_world = Some store" using signed_in_db by blast
  obtain s where s: "toISOString (Date_now (example_runtime Fulfilled)) = Some s"
    using toISOString_roundtrip [of "Date_now (example_runtime Fulfilled)"]
    by (auto simp: example_runtime_def valid_time_def)
  have r: "setDoc_result (example_runtime Fulfilled) = Fulfilled"
    "autoId (example_runtime Fulfilled) = ''p1''"
    by (simp_all add: example_runtime_def)
  have t: "to_string (Number_toString (example_runtime Fulfilled)) unprintable_title = None"
    by (simp add: unprintable_title_def)
  show ?thesis
    using d s r t
    by (simp add: handlePurchase_def purchase_try_def purchase_catch_def Let_def
        signed_in_world_fields purchaseDocPath_def appId_def example_globals_def)
qed

section \<open>Catalogue entries\<close>

text \<open>
  On a snapshot in which no document's data names an \<open>id\<close> other than the document's
  own, the entries carry the document ids, in the order delivered, and distinct document
  ids give distinct entries.
\<close>

lemma book_of_doc_id:
  assumes "fmlookup (doc_data d) ''id'' = None
           \<or> fmlookup (doc_data d) ''id'' = Some (JStr (doc_id d))"
  shows "get_prop (book_of_doc d) ''id'' = JStr (doc_id d)"
  using assms by (auto simp: book_of_doc_def get_prop_def fmdom_notI intro: fmdomI)

lemma catalogue_ids_where_data_agrees:
  assumes "\<forall>d \<in> set docs. fmlookup (doc_data d) ''id'' = None
             \<or> fmlookup (doc_data d) ''id'' = Some (JStr (doc_id d))"
  shows "catalog_ids (books (onSnapshot_next docs w)) = map JStr (map doc_id docs)"
    and "distinct (map doc_id docs) \<Longrightarrow> distinct (catalog_ids (books (onSnapshot_next docs w)))"
proof -
  show ids: "catalog_ids (books (onSnapshot_next docs w)) = map JStr (map doc_id docs)"
    using assms by (induction docs) (simp_all add: onSnapshot_next_def catalog_ids_def book_of_doc_id)
  show "distinct (catalog_ids (books (onSnapshot_next docs w)))" if "distinct (map doc_id docs)"
    unfolding ids using that by (simp add: distinct_map inj_on_def)
qed

section \<open>The notification modal\<close>

text \<open>
  C9, as amended. The closing control resets the notification slot to its empty state:
  not visible, no message, not a success. The timed dismissal of the unauthenticated case
  only hides the notification: the message and the success flag stay as they were.
\<close>

theorem dismissal_hides_modal:
  "modal (Modal_onClick w) = \<lparr> visible = False, message = [], isSuccess = False \<rparr>
   \<and> modal (run_timeout HideModalThenNavigate w) =
       \<lparr> visible = False, message = message (modal w), isSuccess = isSuccess (modal w) \<rparr>"
  by (simp add: Modal_onClick_def)

text \<open>
  C9 as stated fails for the timed dismissal: a purchase attempt straight after mount shows
  the login notice, and once 1500 ms have passed the notification is hidden with that
  message still in the slot.
\<close>

theorem timed_dismissal_keeps_message:
  "message (modal (advance 1500
      (handlePurchase example_globals (example_runtime Fulfilled) (JStr ''mern_stack_guide'')
         (JStr ''MERN STACK'') (JNum (NumFinite 999)) (initial_world fmempty))))
   = ''You must be logged in to make a purchase. Redirecting you to register...''
   \<and> message (modal (advance 1500
      (handlePurchase example_globals (example_runtime Fulfilled) (JStr ''mern_stack_guide'')
         (JStr ''MERN STACK'') (JNum (NumFinite 999)) (initial_world fmempty)))) \<noteq> []
   \<and> \<not> visible (modal (advance 1500
      (handlePurchase example_globals (example_runtime Fulfilled) (JStr ''mern_stack_guide'')
         (JStr ''MERN STACK'') (JNum (NumFinite 999)) (initial_world fmempty))))"
  by (simp add: handlePurchase_def login_redirect_def initial_world_def advance_fields)

section \<open>The catalogue\<close>

text \<open>
  C7. When the subscription reports an error the catalogue becomes the static default
  set; that set is not empty; it is the catalogue at mount, and it stays the catalogue
  through any sequence of events in which no snapshot is delivered.
\<close>

theorem subscription_error_restores_default:
  assumes "\<forall>e \<in> set es. \<not> is_Snapshot e"
  shows "books (onSnapshot_error err w) = initialBooks
         \<and> initialBooks \<noteq> []
         \<and> books (initial_world docs) = initialBooks
         \<and> books (run g es (initial_world docs)) = initialBooks"
proof -
  have "books (initial_world docs) = initialBooks" by (simp add: initial_world_def)
  with assms show ?thesis
    by (simp add: run_books onSnapshot_error_def initialBooks_def)
qed

theorem subscription_error_restores_default_witness:
  "books (onSnapshot_error ''unavailable''
            (onSnapshot_next [\<lparr> doc_id = ''b1'', doc_data = fmap_of_list [(''title'', JStr ''T'')] \<rparr>]
               signed_in_world)) = initialBooks
   \<and> initialBooks \<noteq> []
   \<and> books (initial_world fmempty) = initialBooks
   \<and> books (run example_globals [Mount, AuthStateChanged None, SnapshotError ''unavailable'']
              (initial_world fmempty)) = initialBooks"
  using subscription_error_restores_default
    [of "[Mount, AuthStateChanged None, SnapshotError ''unavailable'']" "''unavailable''"
        "onSnapshot_next [\<lparr> doc_id = ''b1'', doc_data = fmap_of_list [(''title'', JStr ''T'')] \<rparr>]
               signed_in_world" fmempty example_globals]
  by simp

text \<open>
  C4 says that after a snapshot every catalogue entry carries its document's id and that
  no two entries share an id. The code does not keep to it. The entry is built as
  \<^verbatim>\<open>{ id: doc.id, ...doc.data() }\<close>, so a field of the data named \<open>id\<close> overwrites the
  document id just written. On the snapshot of the two documents \<^verbatim>\<open>b1\<close> and \<^verbatim>\<open>b2\<close>,
  whose data both hold \<^verbatim>\<open>id: 'mern_stack_guide'\<close>, both entries come out with the id
  \<^verbatim>\<open>mern_stack_guide\<close>: neither carries its document id, and the view's
  \<^verbatim>\<open>key={book.id}\<close> is duplicated.
\<close>

theorem snapshot_id_field_clash:
  "map doc_id clashing_snapshot = [''b1'', ''b2'']
   \<and> distinct (map doc_id clashing_snapshot)
   \<and> catalog_ids (books (onSnapshot_next clashing_snapshot (initial_world fmempty)))
       = [JStr ''mern_stack_guide'', JStr ''mern_stack_guide'']
   \<and> catalog_ids (books (onSnapshot_next clashing_snapshot (initial_world fmempty)))
       \<noteq> map JStr (map doc_id clashing_snapshot)
   \<and> \<not> distinct (catalog_ids (books (onSnapshot_next clashing_snapshot (initial_world fmempty))))"
  by (simp add: clashing_snapshot_def onSnapshot_next_def catalog_ids_def book_of_doc_def
      get_prop_def)

section \<open>Start-up\<close>

text \<open>
  C8. With the Firebase configuration absent or empty, the initialisation effect run at
  mount marks auth as settled and loading as over, leaves the identity absent and the
  storage and auth handles unset, calls no sign-in and registers no identity listener.
  The user sees no notification: the modal stays hidden and the only trace is one console
  message. The catalogue subscription is not opened.
\<close>

theorem missing_config_degraded_mode:
  assumes "global_firebase_config g = None \<or> global_firebase_config g = Some fmempty"
  shows "isAuthReady (init_effect g (initial_world docs))
         \<and> \<not> loading (init_effect g (initial_world docs))
         \<and> userId (init_effect g (initial_world docs)) = None
         \<and> db (init_effect g (initial_world docs)) = None
         \<and> auth (init_effect g (initial_world docs)) = None
         \<and> sign_in_calls (init_effect g (initial_world docs)) = []
         \<and> auth_listeners (init_effect g (initial_world docs)) = 0
         \<and> modal (init_effect g (initial_world docs)) =
             \<lparr> visible = False, message = [], isSuccess = False \<rparr>
         \<and> console_errors (init_effect g (initial_world docs)) =
             [''Firebase config is missing. Data persistence disabled.'']
         \<and> \<not> subscribed (init_effect g (initial_world docs))"
proof -
  from assms have "firebaseConfig g = fmempty"
    by (auto simp: firebaseConfig_def)
  then show ?thesis
    by (simp add: init_effect_def initial_world_def subscribed_def)
qed

theorem missing_config_degraded_mode_witness:
  "(global_firebase_config no_config_globals = None
      \<or> global_firebase_config no_config_globals = Some fmempty)
   \<and> isAuthReady (init_effect no_config_globals (initial_world fmempty))
   \<and> \<not> loading (init_effect no_config_globals (initial_world fmempty))
   \<and> userId (init_effect no_config_globals (initial_world fmempty)) = None
   \<and> db (init_effect no_config_globals (initial_world fmempty)) = None
   \<and> sign_in_calls (init_effect no_config_globals (initial_world fmempty)) = []
   \<and> auth_listeners (init_effect no_config_globals (initial_world fmempty)) = 0
   \<and> \<not> visible (modal (init_effect no_config_globals (initial_world fmempty)))"
proof -
  have h: "global_firebase_config no_config_globals = None
             \<or> global_firebase_config no_config_globals = Some fmempty"
    by (simp add: no_config_globals_def)
  from missing_config_degraded_mode [OF h, of fmempty] h show ?thesis by simp
qed

section \<open>Purchases\<close>

text \<open>
  C2. A purchase attempted while the identity is absent (\<open>userId\<close> null) makes no
  \<^verbatim>\<open>setDoc\<close> call and leaves the stored documents alone. It shows the notification
  that login is required, not marked as success, and sets one timeout 1500 ms ahead.
  Before 1500 ms have passed that timeout is still pending and has caused no navigation
  (and, with no earlier timeout pending, the notification is still visible). Once 1500 ms
  have passed the notification is hidden, exactly one navigation to \<^verbatim>\<open>/register\<close> has
  been added to those of the earlier timeouts, and the timeout is gone, so it never runs
  again.
\<close>

theorem purchase_without_identity:
  assumes "userId w = None"
  shows "setDoc_calls (handlePurchase g rt ebookId bookTitle price w) = setDoc_calls w
         \<and> firestore_docs (handlePurchase g rt ebookId bookTitle price w) = firestore_docs w
         \<and> modal (handlePurchase g rt ebookId bookTitle price w) =
             \<lparr> visible = True,
               message =
                 ''You must be logged in to make a purchase. Redirecting you to register...'',
               isSuccess = False \<rparr>
         \<and> timeouts (handlePurchase g rt ebookId bookTitle price w) =
             timeouts w @ [(elapsed_ms w + 1500, HideModalThenNavigate)]
         \<and> (ms < 1500 \<longrightarrow>
               navigate_calls (advance ms (handlePurchase g rt ebookId bookTitle price w)) =
                 navigate_calls (advance ms w)
               \<and> (elapsed_ms w + 1500, HideModalThenNavigate)
                   \<in> set (timeouts (advance ms (handlePurchase g rt ebookId bookTitle price w)))
               \<and> (timeouts w = [] \<longrightarrow>
                    visible (modal (advance ms (handlePurchase g rt ebookId bookTitle price w)))))
         \<and> (1500 \<le> ms \<longrightarrow>
               \<not> visible (modal (advance ms (handlePurchase g rt ebookId bookTitle price w)))
               \<and> navigate_calls (advance ms (handlePurchase g rt ebookId bookTitle price w)) =
                   navigate_calls (advance ms w) @ [''/register'']
               \<and> timeouts (advance ms (handlePurchase g rt ebookId bookTitle price w)) =
                   timeouts (advance ms w)
               \<and> setDoc_calls (advance ms (handlePurchase g rt ebookId bookTitle price w)) =
                   setDoc_calls w)"
proof -
  have hp: "handlePurchase g rt ebookId bookTitle price w = login_redirect w"
    using assms by (simp add: handlePurchase_def)
  show ?thesis
    unfolding hp
    by (simp add: login_redirect_def advance_fields replicate_append_same)
qed

theorem purchase_without_identity_witness:
  "userId (initial_world fmempty) = None
   \<and> setDoc_calls (handlePurchase example_globals (example_runtime Fulfilled)
        (JStr ''mern_stack_guide'') (JStr ''MERN STACK'') (JNum (NumFinite 999))
        (initial_world fmempty)) = []
   \<and> visible (modal (advance 1499 (handlePurchase example_globals (example_runtime Fulfilled)
        (JStr ''mern_stack_guide'') (JStr ''MERN STACK'') (JNum (NumFinite 999))
        (initial_world fmempty))))
   \<and> navigate_calls (advance 1499 (handlePurchase example_globals (example_runtime Fulfilled)
        (JStr ''mern_stack_guide'') (JStr ''MERN STACK'') (JNum (NumFinite 999))
        (initial_world fmempty))) = []
   \<and> \<not> visible (modal (advance 1500 (handlePurchase example_globals (example_runtime Fulfilled)
        (JStr ''mern_stack_guide'') (JStr ''MERN STACK'') (JNum (NumFinite 999))
        (initial_world fmempty))))
   \<and> navigate_calls (advance 1500 (handlePurchase example_globals (example_runtime Fulfilled)
        (JStr ''mern_stack_guide'') (JStr ''MERN STACK'') (JNum (NumFinite 999))
        (initial_world fmempty))) = [''/register'']"
proof -
  have h: "userId (initial_world fmempty) = None" by (simp add: initial_world_def)
  have e: "timeouts (initial_world fmempty) = []" "setDoc_calls (initial_world fmempty) = []"
    "navigate_calls (initial_world fmempty) = []" "elapsed_ms (initial_world fmempty) = 0"
    by (simp_all add: initial_world_def)
  from purchase_without_identity [OF h, of example_globals "example_runtime Fulfilled"
      "JStr ''mern_stack_guide''" "JStr ''MERN STACK''" "JNum (NumFinite 999)" 1499]
    purchase_without_identity [OF h, of example_globals "example_runtime Fulfilled"
      "JStr ''mern_stack_guide''" "JStr ''MERN STACK''" "JNum (NumFinite 999)" 1500]
  show ?thesis using h e by (simp add: advance_fields)
qed

text \<open>
  C6. With the identity present (a uid that passes \<^verbatim>\<open>!userId\<close>: not null and, as
  every Firebase uid, not empty), the checks run in order. A missing \<open>ebookId\<close> (undefined, null, the empty
  string, or any other falsy value) raises the notification \<^verbatim>\<open>Ebook ID is missing.\<close>,
  not a success, whatever the state of the storage handle; nothing else changes, so no
  write is made. With an \<open>ebookId\<close> present and the storage handle null, the notification
  is \<^verbatim>\<open>Database connection failed. Cannot process purchase.\<close> and again nothing else
  changes.
\<close>

theorem purchase_validation_order:
  assumes "userId w = Some uid" "uid \<noteq> []"
  shows "(\<not> truthy ebookId \<longrightarrow>
            handlePurchase g rt ebookId bookTitle price w =
              w\<lparr> modal := \<lparr> visible = True, message = ''Ebook ID is missing.'',
                            isSuccess = False \<rparr> \<rparr>
            \<and> prefix ''Ebook ID is missing''
                 (message (modal (handlePurchase g rt ebookId bookTitle price w)))
            \<and> setDoc_calls (handlePurchase g rt ebookId bookTitle price w) = setDoc_calls w
            \<and> firestore_docs (handlePurchase g rt ebookId bookTitle price w) = firestore_docs w)
       \<and> (truthy ebookId \<and> db w = None \<longrightarrow>
            handlePurchase g rt ebookId bookTitle price w =
              w\<lparr> modal := \<lparr> visible = True,
                            message = ''Database connection failed. Cannot process purchase.'',
                            isSuccess = False \<rparr> \<rparr>
            \<and> prefix ''Database connection failed''
                 (message (modal (handlePurchase g rt ebookId bookTitle price w)))
            \<and> setDoc_calls (handlePurchase g rt ebookId bookTitle price w) = setDoc_calls w
            \<and> firestore_docs (handlePurchase g rt ebookId bookTitle price w) = firestore_docs w)"
  using assms by (simp add: handlePurchase_def)

theorem purchase_validation_order_witness:
  "userId signed_in_world = Some ''u1'' \<and> ''u1'' \<noteq> [] \<and> \<not> truthy (JStr [])
   \<and> truthy (JStr ''mern_stack_guide'')
   \<and> db (signed_in_world\<lparr> db := None \<rparr>) = None
   \<and> modal (handlePurchase example_globals (example_runtime Fulfilled) (JStr [])
               (JStr ''MERN STACK'') (JNum (NumFinite 999)) signed_in_world)
       = \<lparr> visible = True, message = ''Ebook ID is missing.'', isSuccess = False \<rparr>
   \<and> modal (handlePurchase example_globals (example_runtime Fulfilled)
               (JStr ''mern_stack_guide'') (JStr ''MERN STACK'') (JNum (NumFinite 999))
               (signed_in_world\<lparr> db := None \<rparr>))
       = \<lparr> visible = True, message = ''Database connection failed. Cannot process purchase.'',
           isSuccess = False \<rparr>"
proof -
  have u: "userId signed_in_world = Some ''u1''" by (rule signed_in_world_fields)
  have u': "userId (signed_in_world\<lparr> db := None \<rparr>) = Some ''u1''" using u by simp
  have n: "''u1'' \<noteq> []" by simp
  from purchase_validation_order [OF u n, of "JStr []" example_globals "example_runtime Fulfilled"
      "JStr ''MERN STACK''" "JNum (NumFinite 999)"]
    purchase_validation_order [OF u' n, of "JStr ''mern_stack_guide''" example_globals
      "example_runtime Fulfilled" "JStr ''MERN STACK''" "JNum (NumFinite 999)"]
  show ?thesis using u by simp
qed

text \<open>
  C5. When a purchase reaches \<^verbatim>\<open>setDoc\<close> (a non-empty uid as identity, \<open>ebookId\<close>
  and storage handle present, the clock a valid time value) and the write is rejected, the stored documents
  are what they were, and so are the catalogue and the identity. The notification shown is
  not a success and its message is \<^verbatim>\<open>Purchase failed: \<close> followed by the text of the
  error.
\<close>

theorem purchase_write_failure:
  assumes "userId w = Some uid" "uid \<noteq> []" "truthy ebookId" "db w = Some store"
    "valid_time (Date_now rt)" "setDoc_result rt = Rejected reason"
  shows "firestore_docs (handlePurchase g rt ebookId bookTitle price w) = firestore_docs w
         \<and> books (handlePurchase g rt ebookId bookTitle price w) = books w
         \<and> userId (handlePurchase g rt ebookId bookTitle price w) = userId w
         \<and> modal (handlePurchase g rt ebookId bookTitle price w) =
             \<lparr> visible = True, message = ''Purchase failed: '' @ reason, isSuccess = False \<rparr>
         \<and> sublist reason (message (modal (handlePurchase g rt ebookId bookTitle price w)))
         \<and> timeouts (handlePurchase g rt ebookId bookTitle price w) = timeouts w
         \<and> navigate_calls (handlePurchase g rt ebookId bookTitle price w) = navigate_calls w"
proof -
  obtain s where s: "toISOString (Date_now rt) = Some s"
    using toISOString_roundtrip [OF assms(5)] by blast
  have "sublist reason (''Purchase failed: '' @ reason)"
    unfolding sublist_def
    by (rule exI [of _ "''Purchase failed: ''"], rule exI [of _ "[]"]) simp
  then show ?thesis
    using assms s
    by (simp add: handlePurchase_def purchase_try_def purchase_catch_def Let_def)
qed

theorem purchase_write_failure_witness:
  "userId signed_in_world = Some ''u1'' \<and> ''u1'' \<noteq> [] \<and> truthy (JStr ''mern_stack_guide'')
   \<and> (\<exists>store. db signed_in_world = Some store)
   \<and> valid_time (Date_now (example_runtime (Rejected ''permission-denied'')))
   \<and> setDoc_result (example_runtime (Rejected ''permission-denied'')) = Rejected ''permission-denied''
   \<and> firestore_docs (handlePurchase example_globals (example_runtime (Rejected ''permission-denied''))
         (JStr ''mern_stack_guide'') (JStr ''MERN STACK'') (JNum (NumFinite 999)) signed_in_world)
       = fmempty
   \<and> modal (handlePurchase example_globals (example_runtime (Rejected ''permission-denied''))
         (JStr ''mern_stack_guide'') (JStr ''MERN STACK'') (JNum (NumFinite 999)) signed_in_world)
       = \<lparr> visible = True, message = ''Purchase failed: permission-denied'', isSuccess = False \<rparr>"
proof -
  have u: "userId signed_in_world = Some ''u1''" by (rule signed_in_world_fields)
  have n: "''u1'' \<noteq> []" by simp
  have e: "truthy (JStr ''mern_stack_guide'')" by simp
  obtain store where d: "db signed_in_world = Some store" using signed_in_db by blast
  have v: "valid_time (Date_now (example_runtime (Rejected ''permission-denied'')))"
    by (simp add: example_runtime_def valid_time_def)
  have r: "setDoc_result (example_runtime (Rejected ''permission-denied''))
             = Rejected ''permission-denied''"
    by (simp add: example_runtime_def)
  from purchase_write_failure [OF u n e d v r, of example_globals "JStr ''MERN STACK''"
      "JNum (NumFinite 999)"]
  show ?thesis using u d v r by (simp add: signed_in_world_fields)
qed

text \<open>
  C1. When a purchase is made with the identity (a non-empty uid), the \<open>ebookId\<close> and
  the storage handle present, the clock a valid time value (as \<^verbatim>\<open>new Date()\<close> always
  is), the generated document reference fresh (as \<^verbatim>\<open>doc(collection(...))\<close> makes it),
  and the write fulfilled, then exactly one document is added to the store, at that
  reference in the purchases collection of the user; every other document is untouched.
  Its fields are \<open>userId\<close> (the identity), \<open>ebookId\<close>, \<open>bookTitle\<close> and \<open>price\<close> (the
  arguments) and \<open>purchaseDate\<close>, a text that reads back as an ISO-8601 timestamp of the
  clock reading. One \<^verbatim>\<open>setDoc\<close> call is made. Whenever the title converts to text, as
  every string title does, the notification is visible, marked success, and its message
  contains that text: for a string title, the title itself.
\<close>

theorem purchase_success:
  assumes "userId w = Some uid" "uid \<noteq> []" "truthy ebookId" "db w = Some store"
    "valid_time (Date_now rt)" "setDoc_result rt = Fulfilled"
    "(purchaseDocPath g uid, autoId rt) |\<notin>| fmdom (firestore_docs w)"
  shows "\<exists>purchaseDate data.
           parse_iso8601 purchaseDate = Some (Date_now rt)
         \<and> fmlookup data ''userId'' = Some (JStr uid)
         \<and> fmlookup data ''ebookId'' = Some ebookId
         \<and> fmlookup data ''bookTitle'' = Some bookTitle
         \<and> fmlookup data ''price'' = Some price
         \<and> fmlookup data ''purchaseDate'' = Some (JStr purchaseDate)
         \<and> fmdom data = {|''ebookId'', ''bookTitle'', ''price'', ''purchaseDate'', ''userId''|}
         \<and> fmlookup (firestore_docs (handlePurchase g rt ebookId bookTitle price w))
              (purchaseDocPath g uid, autoId rt) = Some data
         \<and> fmdom (firestore_docs (handlePurchase g rt ebookId bookTitle price w)) =
              finsert (purchaseDocPath g uid, autoId rt) (fmdom (firestore_docs w))
         \<and> fcard (fmdom (firestore_docs (handlePurchase g rt ebookId bookTitle price w))) =
              Suc (fcard (fmdom (firestore_docs w)))
         \<and> (\<forall>ref. ref \<noteq> (purchaseDocPath g uid, autoId rt) \<longrightarrow>
                fmlookup (firestore_docs (handlePurchase g rt ebookId bookTitle price w)) ref =
                  fmlookup (firestore_docs w) ref)
         \<and> setDoc_calls (handlePurchase g rt ebookId bookTitle price w) =
              setDoc_calls w @ [((purchaseDocPath g uid, autoId rt), data)]
         \<and> (\<forall>shown. to_string (Number_toString rt) bookTitle = Some shown \<longrightarrow>
                modal (handlePurchase g rt ebookId bookTitle price w) =
                  \<lparr> visible = True,
                    message = ''Successfully purchased '' @ [CHR 0x22] @ shown
                              @ [CHR 0x22] @ ''! Check your library.'',
                    isSuccess = True \<rparr>
              \<and> sublist shown (message (modal (handlePurchase g rt ebookId bookTitle price w))))
         \<and> (\<forall>title. bookTitle = JStr title \<longrightarrow>
                visible (modal (handlePurchase g rt ebookId bookTitle price w))
              \<and> isSuccess (modal (handlePurchase g rt ebookId bookTitle price w))
              \<and> sublist title (message (modal (handlePurchase g rt ebookId bookTitle price w))))"
proof -
  obtain s where s: "toISOString (Date_now rt) = Some s" "parse_iso8601 s = Some (Date_now rt)"
    using toISOString_roundtrip [OF assms(5)] by blast
  define data where "data = purchase_data uid ebookId bookTitle price s"
  define written where
    "written = w\<lparr> firestore_docs := fmupd (purchaseDocPath g uid, autoId rt) data (firestore_docs w),
                  setDoc_calls := setDoc_calls w @ [((purchaseDocPath g uid, autoId rt), data)] \<rparr>"
  have hp: "handlePurchase g rt ebookId bookTitle price w =
      (case to_string (Number_toString rt) bookTitle of
         None \<Rightarrow> purchase_catch ''Cannot convert object to primitive value'' written
       | Some shown \<Rightarrow>
           written\<lparr> modal := \<lparr> visible = True,
                                message = ''Successfully purchased '' @ [CHR 0x22] @ shown
                                          @ [CHR 0x22] @ ''! Check your library.'',
                                isSuccess = True \<rparr> \<rparr>)"
    using assms s
    by (simp add: handlePurchase_def purchase_try_def Let_def data_def written_def
        split: option.splits)
  have docs: "firestore_docs (handlePurchase g rt ebookId bookTitle price w) =
      fmupd (purchaseDocPath g uid, autoId rt) data (firestore_docs w)"
    and calls: "setDoc_calls (handlePurchase g rt ebookId bookTitle price w) =
      setDoc_calls w @ [((purchaseDocPath g uid, autoId rt), data)]"
    unfolding hp by (simp_all add: purchase_catch_def written_def split: option.splits)
  have shown: "modal (handlePurchase g rt ebookId bookTitle price w) =
        \<lparr> visible = True,
          message = ''Successfully purchased '' @ [CHR 0x22] @ shown
                    @ [CHR 0x22] @ ''! Check your library.'',
          isSuccess = True \<rparr>
      \<and> sublist shown (message (modal (handlePurchase g rt ebookId bookTitle price w)))"
    if "to_string (Number_toString rt) bookTitle = Some shown" for shown
  proof -
    have "sublist shown (''Successfully purchased '' @ [CHR 0x22] @ shown
                              @ [CHR 0x22] @ ''! Check your library.'')"
      unfolding sublist_def
      by (rule exI [of _ "''Successfully purchased '' @ [CHR 0x22]"],
          rule exI [of _ "[CHR 0x22] @ ''! Check your library.''"]) simp
    then show ?thesis unfolding hp using that by simp
  qed
  have strings: "visible (modal (handlePurchase g rt ebookId bookTitle price w))
      \<and> isSuccess (modal (handlePurchase g rt ebookId bookTitle price w))
      \<and> sublist title (message (modal (handlePurchase g rt ebookId bookTitle price w)))"
    if "bookTitle = JStr title" for title
  proof -
    from that have "to_string (Number_toString rt) bookTitle = Some title" by simp
    note m = shown [OF this]
    have "visible (modal (handlePurchase g rt ebookId bookTitle price w))"
      "isSuccess (modal (handlePurchase g rt ebookId bookTitle price w))"
      using m [THEN conjunct1] by simp_all
    with m [THEN conjunct2] show ?thesis by blast
  qed
  have fields: "fmlookup data ''userId'' = Some (JStr uid)"
    "fmlookup data ''ebookId'' = Some ebookId"
    "fmlookup data ''bookTitle'' = Some bookTitle"
    "fmlookup data ''price'' = Some price"
    "fmlookup data ''purchaseDate'' = Some (JStr s)"
    "fmdom data = {|''ebookId'', ''bookTitle'', ''price'', ''purchaseDate'', ''userId''|}"
    by (simp_all add: data_def purchase_data_def)
  have card: "fcard (finsert (purchaseDocPath g uid, autoId rt) (fmdom (firestore_docs w))) =
                Suc (fcard (fmdom (firestore_docs w)))"
    using assms(7) by (rule fcard_finsert_disjoint)
  have stored: "fmlookup (firestore_docs (handlePurchase g rt ebookId bookTitle price w))
              (purchaseDocPath g uid, autoId rt) = Some data"
    "fmdom (firestore_docs (handlePurchase g rt ebookId bookTitle price w)) =
              finsert (purchaseDocPath g uid, autoId rt) (fmdom (firestore_docs w))"
    "fcard (fmdom (firestore_docs (handlePurchase g rt ebookId bookTitle price w))) =
              Suc (fcard (fmdom (firestore_docs w)))"
    "\<forall>ref. ref \<noteq> (purchaseDocPath g uid, autoId rt) \<longrightarrow>
                fmlookup (firestore_docs (handlePurchase g rt ebookId bookTitle price w)) ref =
                  fmlookup (firestore_docs w) ref"
    unfolding docs using card by simp_all
  have notice: "\<forall>shown. to_string (Number_toString rt) bookTitle = Some shown \<longrightarrow>
                modal (handlePurchase g rt ebookId bookTitle price w) =
                  \<lparr> visible = True,
                    message = ''Successfully purchased '' @ [CHR 0x22] @ shown
                              @ [CHR 0x22] @ ''! Check your library.'',
                    isSuccess = True \<rparr>
              \<and> sublist shown (message (modal (handlePurchase g rt ebookId bookTitle price w)))"
    using shown by blast
  have for_strings: "\<forall>title. bookTitle = JStr title \<longrightarrow>
                visible (modal (handlePurchase g rt ebookId bookTitle price w))
              \<and> isSuccess (modal (handlePurchase g rt ebookId bookTitle price w))
              \<and> sublist title (message (modal (handlePurchase g rt ebookId bookTitle price w)))"
    using strings by blast
  show ?thesis
    by (rule exI [of _ s], rule exI [of _ data])
       (intro conjI; fact s(2) fields stored calls notice for_strings)
qed

theorem purchase_success_witness:
  "userId signed_in_world = Some ''u1'' \<and> ''u1'' \<noteq> [] \<and> truthy (JStr ''mern_stack_guide'')
   \<and> (\<exists>store. db signed_in_world = Some store)
   \<and> valid_time (Date_now (example_runtime Fulfilled))
   \<and> setDoc_result (example_runtime Fulfilled) = Fulfilled
   \<and> (purchaseDocPath example_globals ''u1'', autoId (example_runtime Fulfilled))
        |\<notin>| fmdom (firestore_docs signed_in_world)
   \<and> fmlookup (firestore_docs (handlePurchase example_globals (example_runtime Fulfilled)
         (JStr ''mern_stack_guide'') (JStr ''MERN STACK'') (JNum (NumFinite 999)) signed_in_world))
         (''artifacts/default-app-id/users/u1/purchases'', ''p1'')
       = Some (fmap_of_list
           [(''ebookId'', JStr ''mern_stack_guide''), (''bookTitle'', JStr ''MERN STACK''),
            (''price'', JNum (NumFinite 999)), (''purchaseDate'', JStr ''2023-11-14T22:13:20.000Z''),
            (''userId'', JStr ''u1'')])
   \<and> parse_iso8601 ''2023-11-14T22:13:20.000Z'' = Some 1700000000000
   \<and> fcard (fmdom (firestore_docs (handlePurchase example_globals (example_runtime Fulfilled)
         (JStr ''mern_stack_guide'') (JStr ''MERN STACK'') (JNum (NumFinite 999)) signed_in_world)))
       = 1
   \<and> modal (handlePurchase example_globals (example_runtime Fulfilled)
         (JStr ''mern_stack_guide'') (JStr ''MERN STACK'') (JNum (NumFinite 999)) signed_in_world)
       = \<lparr> visible = True,
           message = ''Successfully purchased '' @ [CHR 0x22] @ ''MERN STACK'' @ [CHR 0x22]
                     @ ''! Check your library.'',
           isSuccess = True \<rparr>
   \<and> sublist ''MERN STACK'' (message (modal (handlePurchase example_globals
         (example_runtime Fulfilled) (JStr ''mern_stack_guide'') (JStr ''MERN STACK'')
         (JNum (NumFinite 999)) signed_in_world)))"
proof -
  have u: "userId signed_in_world = Some ''u1''" by (rule signed_in_world_fields)
  have n: "''u1'' \<noteq> []" by simp
  have e: "truthy (JStr ''mern_stack_guide'')" by simp
  obtain store where d: "db signed_in_world = Some store" using signed_in_db by blast
  have v: "valid_time (Date_now (example_runtime Fulfilled))"
    by (simp add: example_runtime_def valid_time_def)
  have r: "setDoc_result (example_runtime Fulfilled) = Fulfilled"
    by (simp add: example_runtime_def)
  have f: "(purchaseDocPath example_globals ''u1'', autoId (example_runtime Fulfilled))
             |\<notin>| fmdom (firestore_docs signed_in_world)"
    by (simp add: signed_in_world_fields)
  have p: "purchaseDocPath example_globals ''u1'' = ''artifacts/default-app-id/users/u1/purchases''"
    by (simp add: purchaseDocPath_def appId_def example_globals_def)
  have a: "autoId (example_runtime Fulfilled) = ''p1''"
    "Date_now (example_runtime Fulfilled) = 1700000000000"
    "Number_toString (example_runtime Fulfilled) = example_number_text"
    by (simp_all add: example_runtime_def)
  have iso: "toISOString 1700000000000 = Some ''2023-11-14T22:13:20.000Z''"
    by (simp add: toISOString_def valid_time_def YearFromTime_def Day_def msPerDay_def
        DayFromYear_def MonthFromTime_def DayWithinYear_def InLeapYear_def DaysInYear_def
        DateFromTime_def month_start_def HourFromTime_def MinFromTime_def SecFromTime_def
        msFromTime_def year_text_def pad2_def pad3_def pad4_def digit_char_def)
  from toISOString_roundtrip [of 1700000000000] iso
  have parsed: "parse_iso8601 ''2023-11-14T22:13:20.000Z'' = Some 1700000000000"
    by (simp add: valid_time_def)
  from purchase_success [OF u n e d v r f, of "JStr ''MERN STACK''" "JNum (NumFinite 999)"]
  obtain purchaseDate data where
    c: "fcard (fmdom (firestore_docs (handlePurchase example_globals (example_runtime Fulfilled)
         (JStr ''mern_stack_guide'') (JStr ''MERN STACK'') (JNum (NumFinite 999)) signed_in_world)))
       = Suc (fcard (fmdom (firestore_docs signed_in_world)))"
      "\<forall>shown. to_string (Number_toString (example_runtime Fulfilled)) (JStr ''MERN STACK'')
                 = Some shown \<longrightarrow>
         modal (handlePurchase example_globals (example_runtime Fulfilled)
           (JStr ''mern_stack_guide'') (JStr ''MERN STACK'') (JNum (NumFinite 999)) signed_in_world)
         = \<lparr> visible = True,
             message = ''Successfully purchased '' @ [CHR 0x22] @ shown
                       @ [CHR 0x22] @ ''! Check your library.'',
             isSuccess = True \<rparr>
         \<and> sublist shown (message (modal (handlePurchase example_globals (example_runtime Fulfilled)
           (JStr ''mern_stack_guide'') (JStr ''MERN STACK'') (JNum (NumFinite 999))
           signed_in_world)))"
    by blast
  have ts: "to_string (Number_toString (example_runtime Fulfilled)) (JStr ''MERN STACK'')
              = Some ''MERN STACK''"
    by simp
  note c2 = c(2) [rule_format, OF ts]
  have m1: "modal (handlePurchase example_globals (example_runtime Fulfilled)
         (JStr ''mern_stack_guide'') (JStr ''MERN STACK'') (JNum (NumFinite 999)) signed_in_world)
       = \<lparr> visible = True,
           message = ''Successfully purchased '' @ [CHR 0x22] @ ''MERN STACK'' @ [CHR 0x22]
                     @ ''! Check your library.'',
           isSuccess = True \<rparr>"
    using c2 [THEN conjunct1] by simp
  have m2: "sublist ''MERN STACK'' (message (modal (handlePurchase example_globals
         (example_runtime Fulfilled) (JStr ''mern_stack_guide'') (JStr ''MERN STACK'')
         (JNum (NumFinite 999)) signed_in_world)))"
    by (rule c2 [THEN conjunct2])
  have stored: "fmlookup (firestore_docs (handlePurchase example_globals (example_runtime Fulfilled)
         (JStr ''mern_stack_guide'') (JStr ''MERN STACK'') (JNum (NumFinite 999)) signed_in_world))
         (''artifacts/default-app-id/users/u1/purchases'', ''p1'')
       = Some (fmap_of_list
           [(''ebookId'', JStr ''mern_stack_guide''), (''bookTitle'', JStr ''MERN STACK''),
            (''price'', JNum (NumFinite 999)), (''purchaseDate'', JStr ''2023-11-14T22:13:20.000Z''),
            (''userId'', JStr ''u1'')])"
    using u d
    by (simp add: handlePurchase_def purchase_try_def Let_def a iso p purchase_data_def r)
  have one: "fcard (fmdom (firestore_docs (handlePurchase example_globals
         (example_runtime Fulfilled) (JStr ''mern_stack_guide'') (JStr ''MERN STACK'')
         (JNum (NumFinite 999)) signed_in_world))) = 1"
    using c(1) by (simp add: signed_in_world_fields)
  have ex: "\<exists>store. db signed_in_world = Some store" using d by blast
  show ?thesis
    by (intro conjI; fact u n e ex v r f stored parsed one m1 m2)
qed

text \<open>
  C10. The title and the price are never inspected: whenever a purchase reaches a
  fulfilled write, the stored document's \<open>bookTitle\<close> and \<open>price\<close> are the arguments
  themselves, whatever values they are: an empty title, a negative price, a price that is
  not a number, even a title that cannot be converted to text for the notice.
\<close>

theorem purchase_stores_arguments_verbatim:
  assumes "userId w = Some uid" "uid \<noteq> []" "truthy ebookId" "db w = Some store"
    "valid_time (Date_now rt)" "setDoc_result rt = Fulfilled"
  shows "\<exists>data.
           fmlookup (firestore_docs (handlePurchase g rt ebookId bookTitle price w))
             (purchaseDocPath g uid, autoId rt) = Some data
         \<and> fmlookup data ''bookTitle'' = Some bookTitle
         \<and> fmlookup data ''price'' = Some price"
proof -
  obtain s where s: "toISOString (Date_now rt) = Some s"
    using toISOString_roundtrip [OF assms(5)] by blast
  show ?thesis
    using assms s
    by (simp add: handlePurchase_def purchase_try_def purchase_catch_def Let_def purchase_data_def
        split: option.splits)
qed

theorem purchase_stores_arguments_verbatim_witness:
  "userId signed_in_world = Some ''u1'' \<and> ''u1'' \<noteq> [] \<and> truthy (JStr ''mern_stack_guide'')
   \<and> (\<exists>store. db signed_in_world = Some store)
   \<and> valid_time (Date_now (example_runtime Fulfilled))
   \<and> setDoc_result (example_runtime Fulfilled) = Fulfilled
   \<and> (\<exists>data.
         fmlookup (firestore_docs (handlePurchase example_globals (example_runtime Fulfilled)
            (JStr ''mern_stack_guide'') (JStr []) (JNum (NumFinite (- 5))) signed_in_world))
            (purchaseDocPath example_globals ''u1'', autoId (example_runtime Fulfilled)) = Some data
         \<and> fmlookup data ''bookTitle'' = Some (JStr [])
         \<and> fmlookup data ''price'' = Some (JNum (NumFinite (- 5))))
   \<and> (\<exists>data.
         fmlookup (firestore_docs (handlePurchase example_globals (example_runtime Fulfilled)
            (JStr ''mern_stack_guide'') JNull (JStr ''free'') signed_in_world))
            (purchaseDocPath example_globals ''u1'', autoId (example_runtime Fulfilled)) = Some data
         \<and> fmlookup data ''bookTitle'' = Some JNull
         \<and> fmlookup data ''price'' = Some (JStr ''free''))
   \<and> (\<exists>data.
         fmlookup (firestore_docs (handlePurchase example_globals (example_runtime Fulfilled)
            (JStr ''mern_stack_guide'') unprintable_title (JNum NumNaN) signed_in_world))
            (purchaseDocPath example_globals ''u1'', autoId (example_runtime Fulfilled)) = Some data
         \<and> fmlookup data ''bookTitle'' = Some unprintable_title
         \<and> fmlookup data ''price'' = Some (JNum NumNaN))"
proof -
  have u: "userId signed_in_world = Some ''u1''" by (rule signed_in_world_fields)
  have n: "''u1'' \<noteq> []" by simp
  have e: "truthy (JStr ''mern_stack_guide'')" by simp
  obtain store where d: "db signed_in_world = Some store" using signed_in_db by blast
  have v: "valid_time (Date_now (example_runtime Fulfilled))"
    by (simp add: example_runtime_def valid_time_def)
  have r: "setDoc_result (example_runtime Fulfilled) = Fulfilled"
    by (simp add: example_runtime_def)
  from purchase_stores_arguments_verbatim [OF u n e d v r, of example_globals "JStr []"
      "JNum (NumFinite (- 5))"]
    purchase_stores_arguments_verbatim [OF u n e d v r, of example_globals JNull "JStr ''free''"]
    purchase_stores_arguments_verbatim [OF u n e d v r, of example_globals unprintable_title
      "JNum NumNaN"]
  show ?thesis using u e d v r by simp
qed

text \<open>
  C3. Whatever happens to the component (mount, an identity change, a failed sign-in, a
  snapshot or a subscription error, a purchase call with any arguments, a click on a card's
  button, closing the notification, time passing)
  and in whatever state: if the event makes a \<^verbatim>\<open>setDoc\<close> call or changes the stored
  documents, then the identity was present in the state it happened in, exactly one call
  was made, into that user's purchases collection, the data written carries that identity
  as its \<open>userId\<close>, and the store either is unchanged (the write was rejected) or has that
  data at the reference written to.
\<close>

theorem records_written_only_under_identity:
  assumes "setDoc_calls (step g e w) \<noteq> setDoc_calls w
           \<or> firestore_docs (step g e w) \<noteq> firestore_docs w"
  shows "\<exists>uid ref data.
           userId w = Some uid \<and> uid \<noteq> []
         \<and> setDoc_calls (step g e w) = setDoc_calls w @ [(ref, data)]
         \<and> fst ref = purchaseDocPath g uid
         \<and> fmlookup data ''userId'' = Some (JStr uid)
         \<and> (firestore_docs (step g e w) = firestore_docs w
             \<or> firestore_docs (step g e w) = fmupd ref data (firestore_docs w))"
proof (cases e)
  case (Purchase rt ebookId bookTitle price)
  with assms handlePurchase_writes [of g rt ebookId bookTitle price w]
  obtain uid data where "userId w = Some uid" "uid \<noteq> []"
    "setDoc_calls (step g e w) = setDoc_calls w @ [((purchaseDocPath g uid, autoId rt), data)]"
    "fmlookup data ''userId'' = Some (JStr uid)"
    "firestore_docs (step g e w) = firestore_docs w
     \<or> firestore_docs (step g e w) = fmupd (purchaseDocPath g uid, autoId rt) data (firestore_docs w)"
    by auto
  then show ?thesis by (intro exI [of _ uid] exI [of _ "(purchaseDocPath g uid, autoId rt)"]
        exI [of _ data]) simp
next
  case (BuyNow rt i)
  show ?thesis
  proof (cases "loading w \<or> length (books w) \<le> i")
    case True
    with assms BuyNow show ?thesis by simp
  next
    case False
    with assms BuyNow
      handlePurchase_writes [of g rt "get_prop (books w ! i) ''id''"
        "get_prop (books w ! i) ''title''" "get_prop (books w ! i) ''price''" w]
    obtain uid data where "userId w = Some uid" "uid \<noteq> []"
      "setDoc_calls (step g e w) = setDoc_calls w @ [((purchaseDocPath g uid, autoId rt), data)]"
      "fmlookup data ''userId'' = Some (JStr uid)"
      "firestore_docs (step g e w) = firestore_docs w
       \<or> firestore_docs (step g e w) = fmupd (purchaseDocPath g uid, autoId rt) data (firestore_docs w)"
      by (auto simp: BuyNow_onClick_def)
    then show ?thesis by (intro exI [of _ uid] exI [of _ "(purchaseDocPath g uid, autoId rt)"]
          exI [of _ data]) simp
  qed
next
  case Mount
  with assms show ?thesis by (simp add: callbacks_write_nothing)
next
  case (AuthStateChanged user)
  with assms show ?thesis by (simp add: callbacks_write_nothing split: if_splits)
next
  case (SignInFailed err)
  with assms show ?thesis by (simp add: callbacks_write_nothing split: if_splits)
next
  case (Snapshot docs)
  with assms show ?thesis by (simp add: callbacks_write_nothing split: if_splits)
next
  case (SnapshotError err)
  with assms show ?thesis by (simp add: callbacks_write_nothing split: if_splits)
next
  case CloseModal
  with assms show ?thesis by (simp add: callbacks_write_nothing split: if_splits)
next
  case (TimePasses ms)
  with assms show ?thesis by (simp add: advance_fields)
qed

theorem records_written_only_under_identity_witness:
  "setDoc_calls (step example_globals
       (Purchase (example_runtime Fulfilled) (JStr ''mern_stack_guide'') (JStr ''MERN STACK'')
          (JNum (NumFinite 999))) signed_in_world) \<noteq> setDoc_calls signed_in_world
   \<and> (\<exists>uid ref data.
         userId signed_in_world = Some uid \<and> uid \<noteq> []
       \<and> setDoc_calls (step example_globals
            (Purchase (example_runtime Fulfilled) (JStr ''mern_stack_guide'') (JStr ''MERN STACK'')
               (JNum (NumFinite 999))) signed_in_world) = setDoc_calls signed_in_world @ [(ref, data)]
       \<and> fst ref = purchaseDocPath example_globals uid
       \<and> fmlookup data ''userId'' = Some (JStr uid)
       \<and> (firestore_docs (step example_globals
            (Purchase (example_runtime Fulfilled) (JStr ''mern_stack_guide'') (JStr ''MERN STACK'')
               (JNum (NumFinite 999))) signed_in_world) = firestore_docs signed_in_world
           \<or> firestore_docs (step example_globals
            (Purchase (example_runtime Fulfilled) (JStr ''mern_stack_guide'') (JStr ''MERN STACK'')
               (JNum (NumFinite 999))) signed_in_world) = fmupd ref data (firestore_docs signed_in_world)))"
proof -
  obtain store where d: "db signed_in_world = Some store" using signed_in_db by blast
  have iso: "\<exists>s. toISOString (Date_now (example_runtime Fulfilled)) = Some s"
    using toISOString_roundtrip [of "Date_now (example_runtime Fulfilled)"]
    by (auto simp: example_runtime_def valid_time_def)
  then obtain s where s: "toISOString (Date_now (example_runtime Fulfilled)) = Some s" by blast
  have r: "setDoc_result (example_runtime Fulfilled) = Fulfilled"
    by (simp add: example_runtime_def)
  have h: "setDoc_calls (step example_globals
       (Purchase (example_runtime Fulfilled) (JStr ''mern_stack_guide'') (JStr ''MERN STACK'')
          (JNum (NumFinite 999))) signed_in_world) \<noteq> setDoc_calls signed_in_world"
    using d s r
    by (simp add: handlePurchase_def purchase_try_def Let_def signed_in_world_fields)
  from records_written_only_under_identity [OF disjI1 [OF h]] h show ?thesis by blast
qed

end
